theory Spec2Isabelle
  imports Complex_Main "HOL-Library.AList" "HOL-Library.Log_Nat"
begin

section \<open>The feedback-driven itinerary store of the travel planner\<close>

text \<open>
  A shallow embedding of class \<open>SelfTrainingLLMSystem\<close> (\<open>app.py\<close>): the flat-file
  record store, the dual write in front of the relational backend, the feedback
  operation, the auto-train pass and the statistics scan.

  Conventions of the embedding.
  \<^item> A JSON object is a record whose fields are options: \<open>None\<close> is a key that is absent
    (or holds \<open>null\<close>, wherever the source reads it through \<open>x.get(k) or d\<close>).
  \<^item> A Python \<open>dict\<close> whose keys are data is an association list in insertion order;
    \<open>d[k] = v\<close> is \<open>AList.update k v d\<close>, which keeps the position of a key already
    present and appends a new one, and \<open>d.get(k, v0)\<close> reads \<open>map_of d k\<close>.
  \<^item> Everything the code takes from outside itself is a field of the environment
    \<open>env\<close>: the clock, the random generator, the outcome of each disk access, the
    answers of the relational backend and the interpreter's limit on the conversion of
    an int to a string.
  \<^item> An exception is a value \<open>Inl e\<close>; \<open>try: m except: h\<close> is \<open>try_except m h\<close>. A call
    that raises to its caller hands back no store: what the files hold after that is not
    followed.
  \<^item> A Python float is the exact rational value of a binary64 number, and every operation
    on floats rounds as the hardware does (to nearest, ties to even).
  \<^item> The files and the relational rows hold values of the types the program writes into
    them: a key that is present holds a string, an int, a number, a list as the field's
    type says. A string is a list of characters below U+0100.
\<close>

subsection \<open>Python primitives\<close>

text \<open>\<open>xs[start:]\<close> for an integer \<open>start\<close>: a negative start counts from the end and
  is clamped at the beginning of the list.\<close>

definition py_slice_from :: "int \<Rightarrow> 'a list \<Rightarrow> 'a list" where
  "py_slice_from start xs =
     (let n = int (length xs);
          i = (if start < 0 then max 0 (n + start) else min start n)
      in drop (nat i) xs)"

text \<open>The characters below U+0100 for which \<open>str.isspace\<close> holds: the ASCII white space,
  the four separators U+001C to U+001F, the next-line control U+0085 and the no-break
  space U+00A0.\<close>

definition is_space :: "char \<Rightarrow> bool" where
  "is_space c =
     (let n = (of_char c :: nat)
      in (9 \<le> n \<and> n \<le> 13) \<or> (28 \<le> n \<and> n \<le> 32) \<or> n = 133 \<or> n = 160)"

definition is_lower :: "char \<Rightarrow> bool" where
  "is_lower c = (let n = (of_char c :: nat) in 97 \<le> n \<and> n \<le> 122)"

definition is_upper :: "char \<Rightarrow> bool" where
  "is_upper c = (let n = (of_char c :: nat) in 65 \<le> n \<and> n \<le> 90)"

definition to_upper :: "char \<Rightarrow> char" where
  "to_upper c = (if is_lower c then char_of ((of_char c :: nat) - 32) else c)"

definition to_lower :: "char \<Rightarrow> char" where
  "to_lower c = (if is_upper c then char_of ((of_char c :: nat) + 32) else c)"

text \<open>\<open>s.strip()\<close>.\<close>

definition strip :: "string \<Rightarrow> string" where
  "strip s = rev (dropWhile is_space (rev (dropWhile is_space s)))"

text \<open>\<open>s.split()\<close>: the maximal runs of characters that are not white space. The first
  argument is the run being read, in reverse.\<close>

fun split_acc :: "string \<Rightarrow> string \<Rightarrow> string list" where
  "split_acc w [] = (if w = [] then [] else [rev w])"
| "split_acc w (c # cs) =
     (if is_space c then (if w = [] then split_acc [] cs else rev w # split_acc [] cs)
      else split_acc (c # w) cs)"

definition split :: "string \<Rightarrow> string list" where
  "split s = split_acc [] s"

text \<open>\<open>s.title()\<close> on ASCII letters: a letter that follows a letter is lower-cased, any
  other letter is upper-cased. The flag says whether the previous character was a letter.\<close>

fun title_from :: "bool \<Rightarrow> string \<Rightarrow> string" where
  "title_from prev [] = []"
| "title_from prev (c # cs) =
     (if is_lower c then (if prev then c else to_upper c) # title_from True cs
      else if is_upper c then (if prev then to_lower c else c) # title_from True cs
      else c # title_from False cs)"

definition title :: "string \<Rightarrow> string" where
  "title s = title_from False s"

subsection \<open>Exceptions\<close>

datatype exn = DatabaseError | IOError | OverflowError | ValueError | ZeroDivisionError

definition and_then :: "exn + 'a \<Rightarrow> ('a \<Rightarrow> exn + 'b) \<Rightarrow> exn + 'b" where
  "and_then m f = (case m of Inl e \<Rightarrow> Inl e | Inr v \<Rightarrow> f v)"

definition try_except :: "exn + 'a \<Rightarrow> (exn \<Rightarrow> exn + 'a) \<Rightarrow> exn + 'a" where
  "try_except m h = (case m of Inl e \<Rightarrow> h e | Inr v \<Rightarrow> Inr v)"

subsection \<open>Numbers\<close>

text \<open>A Python number is an \<open>int\<close> or a \<open>float\<close>. A finite float is held as the exact
  rational value of the binary64 number it is; \<open>PyInf\<close> is an infinity with its sign
  (\<open>True\<close> for the positive one).\<close>

datatype number = PyInt int | PyFloat rat | PyInf bool

text \<open>Rounding to an integer, a tie going to the even one.\<close>

definition round_half_even :: "rat \<Rightarrow> int" where
  "round_half_even x =
     (let f = \<lfloor>x\<rfloor>; d = x - of_int f
      in if d < 1 / 2 then f else if 1 / 2 < d then f + 1 else if even f then f else f + 1)"

text \<open>\<open>binade x\<close> is the exponent \<open>k\<close> with \<open>2^k \<le> |x| < 2^(k+1)\<close>, found from the bit
  lengths of numerator and denominator. \<open>ulp x\<close> is the spacing of the binary64 numbers
  around \<open>x\<close>: 53 significant bits, and the fixed spacing of the subnormal numbers below
  \<open>2^-1022\<close>. \<open>round_double x\<close> is the binary64 number nearest to \<open>x\<close>, a tie going to
  the even significand, with the exponent not yet bounded above; a value of magnitude
  \<open>2^1024\<close> or more lies beyond the largest binary64 number.\<close>

definition binade :: "rat \<Rightarrow> int" where
  "binade x =
     (let (a, b) = quotient_of \<bar>x\<bar>; k = bitlen a - bitlen b
      in if 2 powi k \<le> \<bar>x\<bar> then k else k - 1)"

definition ulp :: "rat \<Rightarrow> rat" where
  "ulp x = 2 powi (max (binade x) (- 1022) - 52)"

definition round_double :: "rat \<Rightarrow> rat" where
  "round_double x = (if x = 0 then 0 else of_int (round_half_even (x / ulp x)) * ulp x)"

definition exceeds_double :: "rat \<Rightarrow> bool" where
  "exceeds_double v = (v \<noteq> 0 \<and> 1024 \<le> binade v)"

text \<open>\<open>float(n)\<close> as \<open>int + float\<close> applies it to its left operand: the nearest float, or
  \<open>OverflowError\<close> (int too large to convert to float).\<close>

definition float_of_int :: "int \<Rightarrow> exn + rat" where
  "float_of_int n =
     (let v = round_double (of_int n)
      in if exceeds_double v then Inl OverflowError else Inr v)"

text \<open>\<open>a / b\<close> on two ints: the float nearest to the quotient, or \<open>OverflowError\<close>
  (integer division result too large for a float).\<close>

definition true_divide :: "int \<Rightarrow> int \<Rightarrow> exn + rat" where
  "true_divide a b =
     (if b = 0 then Inl ZeroDivisionError
      else let v = round_double (of_int a / of_int b)
           in if exceeds_double v then Inl OverflowError else Inr v)"

text \<open>\<open>a + b\<close> on two finite floats: the nearest float; beyond the largest one the sum is
  an infinity, not an exception.\<close>

definition float_add :: "rat \<Rightarrow> rat \<Rightarrow> number" where
  "float_add a b =
     (let v = round_double (a + b)
      in if exceeds_double v then PyInf (0 < v) else PyFloat v)"

text \<open>\<open>min(n, x)\<close> for an int \<open>n\<close> and a float \<open>x\<close>: the second argument only if it is
  smaller than the first.\<close>

definition py_min :: "int \<Rightarrow> rat \<Rightarrow> number" where
  "py_min n x = (if x < of_int n then PyFloat x else PyInt n)"

text \<open>\<open>n + y\<close> for an int \<open>n\<close>: exact when \<open>y\<close> is an int, else \<open>n\<close> is converted first.\<close>

definition py_add :: "int \<Rightarrow> number \<Rightarrow> exn + number" where
  "py_add n y =
     (case y of
        PyInt m \<Rightarrow> Inr (PyInt (n + m))
      | PyFloat b \<Rightarrow> and_then (float_of_int n) (\<lambda>a. Inr (float_add a b))
      | PyInf positive \<Rightarrow> and_then (float_of_int n) (\<lambda>a. Inr (PyInf positive)))"

text \<open>\<open>round(v, ndigits)\<close> for \<open>ndigits \<ge> 0\<close>: an int is returned as it is; a float is
  rounded in decimal, a tie going to the even digit, and the float nearest to that decimal
  is returned; an infinity rounds to itself.\<close>

definition py_round :: "number \<Rightarrow> nat \<Rightarrow> number" where
  "py_round v ndigits =
     (case v of
        PyInt n \<Rightarrow> PyInt n
      | PyFloat x \<Rightarrow>
          PyFloat (round_double (of_int (round_half_even (x * 10 ^ ndigits)) / 10 ^ ndigits))
      | PyInf positive \<Rightarrow> PyInf positive)"

subsection \<open>Data model\<close>

text \<open>One object of \<open>data/complete_itineraries.json\<close>, or one row of the relational
  backend's \<open>get_recent_itineraries\<close> (which has fewer keys).\<close>

record itinerary =
  itin_id :: "int option"
  timestamp :: "string option"
  city :: "string option"
  destination :: "string option"
  trip_days :: "int option"
  duration :: "int option"
  budget :: "string option"
  budget_level :: "string option"
  interests :: "string list option"
  travel_style :: "string list option"
  include_food :: "bool option"
  include_transport :: "bool option"
  full_prompt_context :: "string option"
  full_itinerary :: "string option"
  itinerary_text :: "string option"
  itinerary_length :: "int option"
  word_count :: "int option"
  rated :: "bool option"
  rating :: "int option"
  feedback_comments :: "string option"
  quality_score :: "number option"
  used_for_training :: "bool option"
  training_iteration :: "int option"

text \<open>One object of \<open>data/feedback.json\<close>.\<close>

record feedback_entry =
  fb_timestamp :: string
  fb_itinerary_id :: int
  fb_rating :: int
  fb_comments :: string

text \<open>The training-patterns document, \<open>data/training_patterns.json\<close>.\<close>

record prompt_summary =
  ps_city :: string
  ps_days :: int
  ps_budget :: string
  ps_rating :: int
  ps_word_count :: int

record successful_patterns =
  high_rated_cities :: "(string \<times> int) list option"
  popular_interests :: "(string \<times> int) list option"
  optimal_trip_durations :: "(string \<times> int) list option"
  budget_success_rates :: "(string \<times> int) list option"

record patterns =
  last_update :: "string option"
  training_iterations :: "int option"
  total_training_samples :: "int option"
  successful :: "successful_patterns option"
  learned_prompt_enhancements :: "string list option"
  quality_improvement_insights :: "string list option"
  best_performing_prompts :: "prompt_summary list option"
  optimization_rules :: "string list option"

text \<open>The row of \<open>DatabaseManager.get_statistics\<close>, as far as \<open>app.py\<close> reads it.\<close>

record db_stats =
  db_total_itineraries :: "int option"
  db_total_ratings :: "int option"
  db_avg_rating :: "rat option"
  db_training_cycles_completed :: "int option"
  db_high_quality_samples :: "int option"
  db_top_cities :: "(string \<times> int) list option"
  db_rating_distribution :: "(int \<times> int) list option"

text \<open>The files a call may read or write.\<close>

datatype io_site =
  ReadItineraries | WriteItineraries | ReadFeedback | WriteFeedback
| ReadPatterns | WritePatterns

text \<open>The environment of one call. \<open>io_ok\<close> says which disk accesses succeed; the
  \<open>db_\<close> fields are what the calls to \<open>DatabaseManager\<close> answer (the relational backend
  is an external service); \<open>rand\<close> is the draw of \<open>random.choice\<close>;
  \<open>int_max_str_digits\<close> is \<open>sys.get_int_max_str_digits()\<close>, 4300 unless the host changed
  it and 0 when the interpreter has no such limit.\<close>

record env =
  now :: string
  rand :: nat
  int_max_str_digits :: nat
  io_ok :: "io_site \<Rightarrow> bool"
  db_create_trip :: "exn + int"
  db_create_itinerary :: "int \<Rightarrow> exn + int"
  db_rate_itinerary :: "int \<Rightarrow> int \<Rightarrow> string \<Rightarrow> exn + unit"
  db_get_recent_itineraries :: "int \<Rightarrow> exn + itinerary list"
  db_get_statistics :: "exn + db_stats option"
  db_training_cycle :: "exn + patterns option"

text \<open>The object's fields: the backend flag of \<open>__init__\<close> and the three files.\<close>

record sys =
  use_database :: bool
  itineraries_file :: "itinerary list"
  feedback_file :: "feedback_entry list"
  training_patterns_file :: patterns

subsection \<open>The three files\<close>

text \<open>\<open>open\<close> and \<open>json.load\<close> / \<open>json.dump\<close> either succeed or raise. A write that
  raises is taken to leave the file as it was.\<close>

definition read_itineraries_file :: "env \<Rightarrow> sys \<Rightarrow> exn + itinerary list" where
  "read_itineraries_file e s =
     (if io_ok e ReadItineraries then Inr (itineraries_file s) else Inl IOError)"

definition write_itineraries_file :: "env \<Rightarrow> itinerary list \<Rightarrow> sys \<Rightarrow> exn + sys" where
  "write_itineraries_file e data s =
     (if io_ok e WriteItineraries then Inr (s\<lparr>itineraries_file := data\<rparr>) else Inl IOError)"

definition read_feedback_file :: "env \<Rightarrow> sys \<Rightarrow> exn + feedback_entry list" where
  "read_feedback_file e s =
     (if io_ok e ReadFeedback then Inr (feedback_file s) else Inl IOError)"

definition write_feedback_file :: "env \<Rightarrow> feedback_entry list \<Rightarrow> sys \<Rightarrow> exn + sys" where
  "write_feedback_file e data s =
     (if io_ok e WriteFeedback then Inr (s\<lparr>feedback_file := data\<rparr>) else Inl IOError)"

definition read_patterns_file :: "env \<Rightarrow> sys \<Rightarrow> exn + patterns" where
  "read_patterns_file e s =
     (if io_ok e ReadPatterns then Inr (training_patterns_file s) else Inl IOError)"

definition write_patterns_file :: "env \<Rightarrow> patterns \<Rightarrow> sys \<Rightarrow> exn + sys" where
  "write_patterns_file e data s =
     (if io_ok e WritePatterns then Inr (s\<lparr>training_patterns_file := data\<rparr>) else Inl IOError)"

text \<open>\<open>load_cached_itineraries\<close>. The sixty-second cache in front of it is cleared by
  every successful \<open>_save_itineraries\<close>, so a load returns the file's content.\<close>

definition load_cached_itineraries :: "env \<Rightarrow> sys \<Rightarrow> exn + itinerary list" where
  "load_cached_itineraries e s = try_except (read_itineraries_file e s) (\<lambda>_. Inr [])"

definition load_itineraries :: "env \<Rightarrow> sys \<Rightarrow> exn + itinerary list" where
  "load_itineraries e s =
     (if use_database s
      then try_except (db_get_recent_itineraries e 1000) (\<lambda>_. load_cached_itineraries e s)
      else load_cached_itineraries e s)"

definition save_itineraries :: "env \<Rightarrow> itinerary list \<Rightarrow> sys \<Rightarrow> exn + sys" where
  "save_itineraries e data s = try_except (write_itineraries_file e data s) (\<lambda>_. Inr s)"

definition load_feedback :: "env \<Rightarrow> sys \<Rightarrow> exn + feedback_entry list" where
  "load_feedback e s = try_except (read_feedback_file e s) (\<lambda>_. Inr [])"

definition save_feedback :: "env \<Rightarrow> feedback_entry list \<Rightarrow> sys \<Rightarrow> exn + sys" where
  "save_feedback e data s = try_except (write_feedback_file e data s) (\<lambda>_. Inr s)"

definition get_default_enhancements :: "string list" where
  "get_default_enhancements =
     [''Include specific venue names with full addresses and contact details'',
      ''Add exact time allocations for each activity with start and end times'',
      ''Provide precise cost estimates in local currency'',
      ''Include detailed transport directions with multiple options'',
      ''Add insider tips and local secrets from experienced travelers'',
      ''Mention opening hours, booking requirements, and best visiting times'',
      ''Suggest specific restaurants with price ranges and signature dishes'',
      ''Provide alternative indoor/outdoor options for weather flexibility'',
      ''Include cultural etiquette tips and useful local phrases'',
      ''Add photo opportunities and best viewpoints at each location'']"

definition generate_initial_patterns :: "env \<Rightarrow> patterns" where
  "generate_initial_patterns e =
     \<lparr>last_update = Some (now e),
      training_iterations = Some 0,
      total_training_samples = Some 0,
      successful = Some
        \<lparr>high_rated_cities = Some [],
         popular_interests = Some
           [(''museums'', 85), (''food'', 90), (''adventure'', 88), (''history'', 82),
            (''beaches'', 87), (''shopping'', 75), (''nightlife'', 78), (''nature'', 86)],
         optimal_trip_durations = Some [(''1-3'', 75), (''4-7'', 88), (''8-14'', 90)],
         budget_success_rates = Some [(''Budget'', 75), (''Moderate'', 88), (''Luxury'', 82)]\<rparr>,
      learned_prompt_enhancements = Some get_default_enhancements,
      quality_improvement_insights = Some [],
      best_performing_prompts = Some [],
      optimization_rules = Some
        [''Include specific restaurant names with addresses'',
         ''Add exact time estimates for each activity'',
         ''Provide alternative indoor options for weather'',
         ''Include insider tips and local secrets'',
         ''Suggest best times to avoid crowds'']\<rparr>"

text \<open>\<open>_load_training_patterns\<close>: the last completed training cycle of the relational
  backend when there is one, else the file, else the seed document.\<close>

definition load_training_patterns :: "env \<Rightarrow> sys \<Rightarrow> exn + patterns" where
  "load_training_patterns e s =
     (let from_file = try_except (read_patterns_file e s) (\<lambda>_. Inr (generate_initial_patterns e))
      in if use_database s
         then (case try_except (db_training_cycle e) (\<lambda>_. Inr None) of
                 Inr (Some p) \<Rightarrow> Inr p
               | _ \<Rightarrow> from_file)
         else from_file)"

definition save_training_patterns :: "env \<Rightarrow> patterns \<Rightarrow> sys \<Rightarrow> exn + sys" where
  "save_training_patterns e data s = try_except (write_patterns_file e data s) (\<lambda>_. Inr s)"

subsection \<open>Input sanitising and the quality score\<close>

text \<open>\<open>sanitize_text_input\<close>; both call sites pass a positive \<open>max_length\<close>.\<close>

definition sanitize_text_input :: "string \<Rightarrow> nat \<Rightarrow> string" where
  "sanitize_text_input text max_length = (if text = [] then [] else take max_length (strip text))"

text \<open>\<open>_calculate_quality_score\<close>: \<open>length / 1000\<close> is a float, \<open>min\<close> hands back that
  float or the int 20, the sum is then a float or an int, and \<open>round\<close> keeps the type.\<close>

definition calculate_quality_score :: "int \<Rightarrow> int \<Rightarrow> exn + number" where
  "calculate_quality_score r len =
     and_then (true_divide len 1000) (\<lambda>q.
       let length_bonus = py_min 20 q
       in and_then (py_add (r * 16) length_bonus) (\<lambda>total. Inr (py_round total 2)))"

text \<open>The conversion of an int to a string, as an f-string does it: the interpreter
  refuses an int of more than \<open>int_max_str_digits\<close> decimal digits with \<open>ValueError\<close>; the
  limit 0 switches the check off.\<close>

definition str_of_int_raises :: "env \<Rightarrow> int \<Rightarrow> bool" where
  "str_of_int_raises e n = (0 < int_max_str_digits e \<and> 10 ^ int_max_str_digits e \<le> \<bar>n\<bar>)"

subsection \<open>Reading an itinerary\<close>

text \<open>\<open>itin.get('rating') or 0\<close>.\<close>

definition rating_or0 :: "itinerary \<Rightarrow> int" where
  "rating_or0 itin = (case rating itin of None \<Rightarrow> 0 | Some r \<Rightarrow> r)"

text \<open>\<open>itin.get('full_itinerary', itin.get('itinerary_text', ''))\<close>.\<close>

definition text_of :: "itinerary \<Rightarrow> string" where
  "text_of itin =
     (case full_itinerary itin of
        Some t \<Rightarrow> t
      | None \<Rightarrow> (case itinerary_text itin of Some t \<Rightarrow> t | None \<Rightarrow> []))"

text \<open>\<open>itin.get('city', itin.get('destination', 'Unknown'))\<close>.\<close>

definition city_of :: "itinerary \<Rightarrow> string" where
  "city_of itin =
     (case city itin of
        Some c \<Rightarrow> c
      | None \<Rightarrow> (case destination itin of Some d \<Rightarrow> d | None \<Rightarrow> ''Unknown''))"

subsection \<open>Storing an itinerary\<close>

text \<open>The relational write of \<open>store_complete_itinerary\<close>; \<open>None\<close> is \<open>itin_id\<close> left
  unset, because the backend is off or one of its two calls raised.\<close>

definition primary_create :: "env \<Rightarrow> sys \<Rightarrow> exn + int option" where
  "primary_create e s =
     (if use_database s
      then try_except
             (and_then (db_create_trip e) (\<lambda>trip_id.
              and_then (db_create_itinerary e trip_id) (\<lambda>i. Inr (Some i))))
             (\<lambda>_. Inr None)
      else Inr None)"

text \<open>The object that \<open>store_complete_itinerary\<close> appends.\<close>

definition itinerary_entry ::
  "env \<Rightarrow> int \<Rightarrow> string \<Rightarrow> int \<Rightarrow> string \<Rightarrow> string list \<Rightarrow> string list \<Rightarrow> bool \<Rightarrow> bool
     \<Rightarrow> string \<Rightarrow> string \<Rightarrow> itinerary" where
  "itinerary_entry e new_id cty days bud ints style food transport prompt_context text =
     \<lparr>itin_id = Some new_id,
      timestamp = Some (now e),
      city = Some cty,
      destination = Some cty,
      trip_days = Some days,
      duration = Some days,
      budget = Some bud,
      budget_level = Some bud,
      interests = Some ints,
      travel_style = Some style,
      include_food = Some food,
      include_transport = Some transport,
      full_prompt_context = Some prompt_context,
      full_itinerary = Some text,
      itinerary_text = Some text,
      itinerary_length = Some (int (length text)),
      word_count = Some (int (length (split text))),
      rated = Some False,
      rating = Some 0,
      feedback_comments = Some [],
      quality_score = Some (PyInt 0),
      used_for_training = Some False,
      training_iteration = Some 0\<rparr>"

definition store_complete_itinerary ::
  "env \<Rightarrow> sys \<Rightarrow> string \<Rightarrow> int \<Rightarrow> string \<Rightarrow> string list \<Rightarrow> string list \<Rightarrow> bool \<Rightarrow> bool
     \<Rightarrow> string \<Rightarrow> string \<Rightarrow> exn + (int \<times> sys)" where
  "store_complete_itinerary e s cty days bud ints style food transport prompt_context text =
     and_then (primary_create e s) (\<lambda>primary.
     and_then (try_except (read_itineraries_file e s) (\<lambda>_. Inr [])) (\<lambda>itineraries_data.
       let new_id = (case primary of None \<Rightarrow> int (length itineraries_data) + 1 | Some i \<Rightarrow> i);
           entry = itinerary_entry e new_id cty days bud ints style food transport
                     prompt_context text
       in and_then (save_itineraries e (itineraries_data @ [entry]) s) (\<lambda>s'.
          Inr (new_id, s'))))"

subsection \<open>Recording feedback\<close>

text \<open>The loop of \<open>record_feedback\<close> over the loaded records: the first record whose
  \<open>id\<close> is the given one is updated, and the loop stops there. The score is computed
  inside the loop, so an exception of \<open>_calculate_quality_score\<close> leaves the loop and the
  function.\<close>

fun rate_first :: "int \<Rightarrow> int \<Rightarrow> string \<Rightarrow> itinerary list \<Rightarrow> exn + itinerary list" where
  "rate_first itinerary_id r comments [] = Inr []"
| "rate_first itinerary_id r comments (itin # rest) =
     (if itin_id itin = Some itinerary_id
      then and_then (calculate_quality_score r (int (length (text_of itin)))) (\<lambda>score.
             Inr (itin\<lparr>rated := Some True,
                       rating := Some r,
                       feedback_comments := Some comments,
                       quality_score := Some score\<rparr> # rest))
      else and_then (rate_first itinerary_id r comments rest) (\<lambda>rest'. Inr (itin # rest')))"

text \<open>\<open>logger.info(f"... {rating} ...")\<close> after the two saves: the f-string converts the
  rating to a string, under no handler.\<close>

definition log_rating :: "env \<Rightarrow> int \<Rightarrow> exn + unit" where
  "log_rating e r = (if str_of_int_raises e r then Inl ValueError else Inr ())"

subsection \<open>The auto-train pass\<close>

definition insights_catalog :: "string list" where
  "insights_catalog =
     [''Itineraries with exact time slots receive higher ratings'',
      ''Including restaurant details improves satisfaction'',
      ''Weather alternatives increase user satisfaction'',
      ''Transport cost breakdowns are highly valued'',
      ''Opening hours mentioned upfront reduce friction'',
      ''Grouping nearby attractions saves time'',
      ''Cultural tips enhance travel experience'',
      ''Budget breakdowns help planning'',
      ''Insider tips boost ratings significantly'',
      ''Day-by-day structure is preferred format'',
      ''Photo spots increase engagement'',
      ''Multi-option transport suggestions are valued'']"

text \<open>\<open>random.choice(insights)\<close>.\<close>

definition generate_training_insight :: "env \<Rightarrow> itinerary list \<Rightarrow> string" where
  "generate_training_insight e high_quality_itineraries =
     insights_catalog ! (rand e mod length insights_catalog)"

text \<open>One round of the loop over the high-quality records that counts their cities.\<close>

definition count_city :: "(string \<times> int) list \<Rightarrow> itinerary \<Rightarrow> (string \<times> int) list" where
  "count_city cities itin =
     (let c = title (city_of itin);
          current_count = (case map_of cities c of None \<Rightarrow> 0 | Some n \<Rightarrow> n)
      in AList.update c (current_count + 1) cities)"

text \<open>The insight step: the drawn sentence is appended unless the list has it, and the
  list is then cut to its last fifteen entries.\<close>

definition add_insight :: "string \<Rightarrow> string list option \<Rightarrow> string list option" where
  "add_insight new_insight current =
     (if new_insight = [] then current
      else let l = (case current of None \<Rightarrow> [] | Some l \<Rightarrow> l)
           in if new_insight \<in> set l then Some l
              else Some (py_slice_from (- 15) (l @ [new_insight])))"

definition prompt_summary_of :: "itinerary \<Rightarrow> prompt_summary" where
  "prompt_summary_of itin =
     \<lparr>ps_city = city_of itin,
      ps_days = (case trip_days itin of
                   Some d \<Rightarrow> d
                 | None \<Rightarrow> (case duration itin of Some d \<Rightarrow> d | None \<Rightarrow> 1)),
      ps_budget = (case budget itin of
                     Some b \<Rightarrow> b
                   | None \<Rightarrow> (case budget_level itin of Some b \<Rightarrow> b | None \<Rightarrow> ''Moderate'')),
      ps_rating = (case rating itin of None \<Rightarrow> 5 | Some r \<Rightarrow> r),
      ps_word_count = (case word_count itin of None \<Rightarrow> 0 | Some w \<Rightarrow> w)\<rparr>"

text \<open>One round of the loop that collects the five-star records.\<close>

definition add_best_prompt :: "prompt_summary list \<Rightarrow> itinerary \<Rightarrow> prompt_summary list" where
  "add_best_prompt best itin =
     (if rating_or0 itin = 5
      then (let summary = prompt_summary_of itin
            in if summary \<in> set best then best
               else py_slice_from (- 10) (best @ [summary]))
      else best)"

text \<open>One round of the loop that marks the records used for training.\<close>

definition mark_used :: "int \<Rightarrow> itinerary \<Rightarrow> itinerary" where
  "mark_used iteration itin =
     (if 4 \<le> rating_or0 itin \<and> \<not> (case used_for_training itin of None \<Rightarrow> False | Some u \<Rightarrow> u)
      then itin\<lparr>used_for_training := Some True, training_iteration := Some iteration\<rparr>
      else itin)"

definition empty_successful_patterns :: successful_patterns where
  "empty_successful_patterns =
     \<lparr>high_rated_cities = None, popular_interests = None,
      optimal_trip_durations = None, budget_success_rates = None\<rparr>"

text \<open>The document after a pass that found the records \<open>itineraries\<close> and their
  high-quality subset \<open>high_quality\<close> (the statements of \<open>_auto_train\<close> between the two
  early returns and the two saves).\<close>

definition train_patterns :: "env \<Rightarrow> itinerary list \<Rightarrow> patterns \<Rightarrow> patterns" where
  "train_patterns e high_quality p =
     (let sp = (case successful p of None \<Rightarrow> empty_successful_patterns | Some sp \<Rightarrow> sp);
          cities = (case high_rated_cities sp of None \<Rightarrow> [] | Some d \<Rightarrow> d);
          cities' = foldl count_city cities high_quality;
          new_insight = generate_training_insight e high_quality;
          best = (case best_performing_prompts p of None \<Rightarrow> [] | Some l \<Rightarrow> l)
      in p\<lparr>successful := Some (sp\<lparr>high_rated_cities := Some cities'\<rparr>),
           quality_improvement_insights :=
             add_insight new_insight (quality_improvement_insights p),
           best_performing_prompts := Some (foldl add_best_prompt best high_quality),
           last_update := Some (now e),
           training_iterations :=
             Some ((case training_iterations p of None \<Rightarrow> 0 | Some n \<Rightarrow> n) + 1),
           total_training_samples := Some (int (length high_quality))\<rparr>)"

definition auto_train_body :: "env \<Rightarrow> sys \<Rightarrow> exn + sys" where
  "auto_train_body e s =
     (if use_database s then Inr s
      else
        and_then (load_itineraries e s) (\<lambda>itineraries.
        and_then (load_training_patterns e s) (\<lambda>p.
          if length itineraries < 3 then Inr s
          else
            let high_quality = filter (\<lambda>i. 4 \<le> rating_or0 i) itineraries in
            if high_quality = [] then Inr s
            else
              let p' = train_patterns e high_quality p;
                  iteration = (case training_iterations p' of None \<Rightarrow> 0 | Some n \<Rightarrow> n);
                  itineraries' = map (mark_used iteration) itineraries
              in and_then (save_training_patterns e p' s) (\<lambda>s1.
                 save_itineraries e itineraries' s1))))"

definition auto_train :: "env \<Rightarrow> sys \<Rightarrow> exn + sys" where
  "auto_train e s = try_except (auto_train_body e s) (\<lambda>_. Inr s)"

text \<open>\<open>record_feedback\<close>.\<close>

definition record_feedback :: "env \<Rightarrow> sys \<Rightarrow> int \<Rightarrow> int \<Rightarrow> string \<Rightarrow> exn + sys" where
  "record_feedback e s itinerary_id r comments0 =
     (let comments = sanitize_text_input comments0 1000 in
      and_then
        (if use_database s
         then try_except (db_rate_itinerary e itinerary_id r comments) (\<lambda>_. Inr ())
         else Inr ()) (\<lambda>_.
      and_then (load_itineraries e s) (\<lambda>itineraries.
      and_then (rate_first itinerary_id r comments itineraries) (\<lambda>rated_records.
      and_then (save_itineraries e rated_records s) (\<lambda>s1.
        let feedback_entry =
              \<lparr>fb_timestamp = now e, fb_itinerary_id = itinerary_id,
               fb_rating = r, fb_comments = comments\<rparr>
        in and_then (load_feedback e s1) (\<lambda>loaded.
           let feedback_data = loaded @ [feedback_entry] in
           and_then (save_feedback e feedback_data s1) (\<lambda>s2.
           and_then (log_rating e r) (\<lambda>_.
           if length feedback_data mod 3 = 0 then auto_train e s2 else Inr s2))))))))"

text \<open>\<open>DatabaseManager.rate_itinerary\<close>: the \<open>UPDATE\<close> it sends, applied to the rows of the
  table \<open>itineraries\<close>, as far as the statement names their columns. The score is the
  expression \<open>(%s * 16.0) + (character_count / 1000.0)\<close> of the statement, in the exact
  decimal arithmetic of SQL.\<close>

record itinerary_row =
  row_id :: int
  row_rating :: "int option"
  row_feedback_comments :: "string option"
  row_rated_at :: "string option"
  row_character_count :: int
  row_quality_score :: "rat option"

definition rate_itinerary ::
  "env \<Rightarrow> int \<Rightarrow> int \<Rightarrow> string \<Rightarrow> itinerary_row list \<Rightarrow> itinerary_row list" where
  "rate_itinerary e itinerary_id r comments rows =
     map (\<lambda>row.
            if row_id row = itinerary_id
            then row\<lparr>row_rating := Some r,
                     row_feedback_comments := Some comments,
                     row_rated_at := Some (now e),
                     row_quality_score :=
                       Some (of_int r * 16 + of_int (row_character_count row) / 1000)\<rparr>
            else row) rows"

subsection \<open>Reading back\<close>

text \<open>\<open>get_recent_itineraries\<close>.\<close>

definition get_recent_itineraries :: "env \<Rightarrow> sys \<Rightarrow> int \<Rightarrow> exn + itinerary list" where
  "get_recent_itineraries e s limit =
     (let from_json =
            and_then (load_itineraries e s) (\<lambda>itineraries.
            Inr (py_slice_from (- limit) (rev itineraries)))
      in if use_database s
         then try_except (db_get_recent_itineraries e limit) (\<lambda>_. from_json)
         else from_json)"


definition or0 :: "int option \<Rightarrow> int" where
  "or0 x = (case x of None \<Rightarrow> 0 | Some n \<Rightarrow> n)"







subsection \<open>A concrete run\<close>

text \<open>An environment with a healthy disk and a relational backend that refuses every
  call, a store without relational backend that holds the given records and the seed
  document, and a record as \<open>store_complete_itinerary\<close> writes it.\<close>

definition example_env :: env where
  "example_env =
     \<lparr>now = ''2024-01-01T00:00:00'', rand = 0,
      int_max_str_digits = 4300,
      io_ok = (\<lambda>_. True),
      db_create_trip = Inl DatabaseError,
      db_create_itinerary = (\<lambda>_. Inl DatabaseError),
      db_rate_itinerary = (\<lambda>_ _ _. Inl DatabaseError),
      db_get_recent_itineraries = (\<lambda>_. Inl DatabaseError),
      db_get_statistics = Inl DatabaseError,
      db_training_cycle = Inl DatabaseError\<rparr>"

definition example_entry :: "int \<Rightarrow> string \<Rightarrow> itinerary" where
  "example_entry i c =
     itinerary_entry example_env i c 3 ''Moderate'' [] [] True True [] ''Day 1: walk''"

definition example_sys :: "itinerary list \<Rightarrow> sys" where
  "example_sys its =
     \<lparr>use_database = False, itineraries_file = its, feedback_file = [],
      training_patterns_file = generate_initial_patterns example_env\<rparr>"

subsection \<open>What the file wrappers return\<close>

text \<open>The value of each wrapper, with its handler applied.\<close>

definition loaded_file :: "env \<Rightarrow> sys \<Rightarrow> itinerary list" where
  "loaded_file e s = (if io_ok e ReadItineraries then itineraries_file s else [])"

definition loaded_itineraries :: "env \<Rightarrow> sys \<Rightarrow> itinerary list" where
  "loaded_itineraries e s =
     (if use_database s
      then (case db_get_recent_itineraries e 1000 of
              Inl _ \<Rightarrow> loaded_file e s | Inr rows \<Rightarrow> rows)
      else loaded_file e s)"

definition saved_itineraries :: "env \<Rightarrow> itinerary list \<Rightarrow> sys \<Rightarrow> sys" where
  "saved_itineraries e data s =
     (if io_ok e WriteItineraries then s\<lparr>itineraries_file := data\<rparr> else s)"

definition loaded_feedback :: "env \<Rightarrow> sys \<Rightarrow> feedback_entry list" where
  "loaded_feedback e s = (if io_ok e ReadFeedback then feedback_file s else [])"

definition saved_feedback :: "env \<Rightarrow> feedback_entry list \<Rightarrow> sys \<Rightarrow> sys" where
  "saved_feedback e data s =
     (if io_ok e WriteFeedback then s\<lparr>feedback_file := data\<rparr> else s)"

definition saved_patterns :: "env \<Rightarrow> patterns \<Rightarrow> sys \<Rightarrow> sys" where
  "saved_patterns e data s =
     (if io_ok e WritePatterns then s\<lparr>training_patterns_file := data\<rparr> else s)"

subsection \<open>What the two operations on the store return\<close>

text \<open>The document that \<open>_load_training_patterns\<close> returns without relational backend.\<close>

definition loaded_patterns :: "env \<Rightarrow> sys \<Rightarrow> patterns" where
  "loaded_patterns e s =
     (if io_ok e ReadPatterns then training_patterns_file s else generate_initial_patterns e)"

definition high_quality_of :: "itinerary list \<Rightarrow> itinerary list" where
  "high_quality_of its = filter (\<lambda>i. 4 \<le> rating_or0 i) its"

text \<open>Whether a pass gets past its three early returns, and the store it leaves then.\<close>

definition trains :: "env \<Rightarrow> sys \<Rightarrow> bool" where
  "trains e s =
     (\<not> use_database s \<and> 3 \<le> length (loaded_file e s) \<and> high_quality_of (loaded_file e s) \<noteq> [])"

definition trained :: "env \<Rightarrow> sys \<Rightarrow> sys" where
  "trained e s =
     (let p' = train_patterns e (high_quality_of (loaded_file e s)) (loaded_patterns e s)
      in saved_itineraries e (map (mark_used (or0 (training_iterations p'))) (loaded_file e s))
           (saved_patterns e p' s))"

text \<open>The store after the two writes of \<open>record_feedback\<close>, where \<open>rated_records\<close>
  is what the loop made of the loaded records, and the store that the call hands back
  when it returns: the pass runs on every third feedback.\<close>

definition fed :: "env \<Rightarrow> sys \<Rightarrow> int \<Rightarrow> int \<Rightarrow> string \<Rightarrow> itinerary list \<Rightarrow> sys" where
  "fed e s itinerary_id r comments0 rated_records =
     (let comments = sanitize_text_input comments0 1000;
          s1 = saved_itineraries e rated_records s
      in saved_feedback e
           (loaded_feedback e s1 @
              [\<lparr>fb_timestamp = now e, fb_itinerary_id = itinerary_id,
                fb_rating = r, fb_comments = comments\<rparr>]) s1)"

definition after_feedback ::
  "env \<Rightarrow> sys \<Rightarrow> int \<Rightarrow> int \<Rightarrow> string \<Rightarrow> itinerary list \<Rightarrow> sys" where
  "after_feedback e s itinerary_id r comments0 rated_records =
     (let s2 = fed e s itinerary_id r comments0 rated_records
      in if Suc (length (loaded_feedback e s)) mod 3 = 0 \<and> trains e s2 then trained e s2
         else s2)"



text \<open>\<open>k\<close> is the position of the first record of \<open>its\<close> whose \<open>id\<close> is \<open>i\<close>: the record
  that the loop of \<open>record_feedback\<close> reaches.\<close>

definition first_with_id :: "int \<Rightarrow> itinerary list \<Rightarrow> nat \<Rightarrow> bool" where
  "first_with_id i its k =
     (k < length its \<and> itin_id (its ! k) = Some i \<and> (\<forall>j<k. itin_id (its ! j) \<noteq> Some i))"

text \<open>The id that the relational write of \<open>store_complete_itinerary\<close> produced, if any.\<close>

definition created_primary :: "env \<Rightarrow> sys \<Rightarrow> int option" where
  "created_primary e s =
     (if use_database s
      then (case db_create_trip e of
              Inl _ \<Rightarrow> None
            | Inr trip_id \<Rightarrow> (case db_create_itinerary e trip_id of Inl _ \<Rightarrow> None | Inr i \<Rightarrow> Some i))
      else None)"

text \<open>An environment whose relational backend creates trip 3 and itinerary 7.\<close>

definition example_db_env :: env where
  "example_db_env = example_env\<lparr>db_create_trip := Inr 3, db_create_itinerary := (\<lambda>_. Inr 7)\<rparr>"


text \<open>A record without the two stamps that the auto-train pass sets.\<close>

definition unstamped :: "itinerary \<Rightarrow> itinerary" where
  "unstamped x = x\<lparr>used_for_training := None, training_iteration := None\<rparr>"

text \<open>A stored record that has been rated, two entries of the feedback file, a store
  with three records (the first rated 5, none used for training) and two feedback entries,
  and that store after a feedback for the unknown id 99.\<close>

definition example_rated :: "int \<Rightarrow> string \<Rightarrow> int \<Rightarrow> itinerary" where
  "example_rated i c r = (example_entry i c)\<lparr>rated := Some True, rating := Some r\<rparr>"

definition example_feedback :: "int \<Rightarrow> int \<Rightarrow> feedback_entry" where
  "example_feedback i r =
     \<lparr>fb_timestamp = ''2024-01-01T00:00:00'', fb_itinerary_id = i, fb_rating = r,
      fb_comments = []\<rparr>"

definition example_store :: sys where
  "example_store =
     (example_sys [example_rated 1 ''paris'' 5, example_entry 2 ''tokyo'', example_entry 3 ''rome''])
       \<lparr>feedback_file := [example_feedback 1 5, example_feedback 1 5]\<rparr>"

definition example_store_after :: sys where
  "example_store_after =
     example_store
       \<lparr>itineraries_file :=
          [(example_rated 1 ''paris'' 5)
             \<lparr>used_for_training := Some True, training_iteration := Some 1\<rparr>,
           example_entry 2 ''tokyo'', example_entry 3 ''rome''],
        feedback_file := [example_feedback 1 5, example_feedback 1 5, example_feedback 99 3],
        training_patterns_file :=
          train_patterns example_env [example_rated 1 ''paris'' 5]
            (generate_initial_patterns example_env)\<rparr>"

subsection \<open>Repeated passes\<close>

text \<open>One auto-train pass after another, each with its own environment.\<close>

fun auto_train_passes :: "env list \<Rightarrow> sys \<Rightarrow> exn + sys" where
  "auto_train_passes [] s = Inr s"
| "auto_train_passes (e # es) s = and_then (auto_train e s) (auto_train_passes es)"

text \<open>The insight list of the stored document (an absent key is the empty list).\<close>

definition insights_of :: "sys \<Rightarrow> string list" where
  "insights_of s =
     (case quality_improvement_insights (training_patterns_file s) of None \<Rightarrow> [] | Some l \<Rightarrow> l)"

text \<open>\<open>d.get(c, 0)\<close> on a dictionary of counts.\<close>

definition count_in :: "(string \<times> int) list \<Rightarrow> string \<Rightarrow> int" where
  "count_in cities c = (case map_of cities c of None \<Rightarrow> 0 | Some n \<Rightarrow> n)"

text \<open>\<open>high_rated_cities\<close> of the stored document, read at a city.\<close>

definition high_rated_count :: "sys \<Rightarrow> string \<Rightarrow> int" where
  "high_rated_count s c =
     (case successful (training_patterns_file s) of
        None \<Rightarrow> 0
      | Some sp \<Rightarrow>
          (case high_rated_cities sp of
             None \<Rightarrow> 0
           | Some cities \<Rightarrow> count_in cities c))"

text \<open>Every disk access of the call succeeds.\<close>

definition disk_ok :: "env \<Rightarrow> bool" where
  "disk_ok e =
     (io_ok e ReadItineraries \<and> io_ok e WriteItineraries \<and> io_ok e ReadFeedback
      \<and> io_ok e WriteFeedback \<and> io_ok e ReadPatterns \<and> io_ok e WritePatterns)"

text \<open>The number of records with rating 4 or more whose title-cased city is \<open>c\<close>.\<close>

definition high_rated_in :: "string \<Rightarrow> itinerary list \<Rightarrow> nat" where
  "high_rated_in c its =
     length (filter (\<lambda>i. 4 \<le> rating_or0 i \<and> title (city_of i) = c) its)"

subsection \<open>Reading the statistics\<close>










section \<open>Properties\<close>

subsection \<open>Exceptions and the file wrappers\<close>

lemma and_then_Inr [simp]: "and_then (Inr v) f = f v"
  by (simp add: and_then_def)

lemma and_then_Inl [simp]: "and_then (Inl x) f = Inl x"
  by (simp add: and_then_def)

lemma try_except_Inr [simp]: "try_except (Inr v) h = Inr v"
  by (simp add: try_except_def)

lemma try_except_Inl [simp]: "try_except (Inl x) h = h x"
  by (simp add: try_except_def)

text \<open>What each wrapper returns; none of them raises.\<close>

lemma load_cached_itineraries_eq: "load_cached_itineraries e s = Inr (loaded_file e s)"
  by (simp add: load_cached_itineraries_def read_itineraries_file_def loaded_file_def)

lemma load_itineraries_eq: "load_itineraries e s = Inr (loaded_itineraries e s)"
  by (simp add: load_itineraries_def loaded_itineraries_def load_cached_itineraries_eq
      try_except_def split: sum.splits)

lemma save_itineraries_eq: "save_itineraries e data s = Inr (saved_itineraries e data s)"
  by (simp add: save_itineraries_def write_itineraries_file_def saved_itineraries_def)

lemma load_feedback_eq: "load_feedback e s = Inr (loaded_feedback e s)"
  by (simp add: load_feedback_def read_feedback_file_def loaded_feedback_def)

lemma save_feedback_eq: "save_feedback e data s = Inr (saved_feedback e data s)"
  by (simp add: save_feedback_def write_feedback_file_def saved_feedback_def)

lemma save_training_patterns_eq:
  "save_training_patterns e data s = Inr (saved_patterns e data s)"
  by (simp add: save_training_patterns_def write_patterns_file_def saved_patterns_def)


lemma load_training_patterns_json:
  "\<not> use_database s \<Longrightarrow>
   load_training_patterns e s =
     Inr (if io_ok e ReadPatterns then training_patterns_file s
          else generate_initial_patterns e)"
  by (simp add: load_training_patterns_def read_patterns_file_def)

subsection \<open>Reading the recent itineraries\<close>

text \<open>
  C5. \<open>get_recent_itineraries(limit)\<close> is to return the \<open>limit\<close> most recently created
  records, newest first, and never more than \<open>limit\<close> of them. On the flat file the
  function reverses the list and then keeps its \<^emph>\<open>last\<close> \<open>limit\<close> entries: of three
  records stored in the order 1, 2, 3 a call with limit 2 returns the records 2 and 1,
  the two oldest, and leaves out record 3, the most recent one; a call with limit 0
  returns all three.
\<close>

theorem get_recent_itineraries_keeps_oldest:
  "get_recent_itineraries example_env
      (example_sys [example_entry 1 ''paris'', example_entry 2 ''tokyo'',
                    example_entry 3 ''rome'']) 2
     = Inr [example_entry 2 ''tokyo'', example_entry 1 ''paris'']
   \<and> get_recent_itineraries example_env
      (example_sys [example_entry 1 ''paris'', example_entry 2 ''tokyo'',
                    example_entry 3 ''rome'']) 0
     = Inr [example_entry 3 ''rome'', example_entry 2 ''tokyo'', example_entry 1 ''paris'']"
  by (simp add: get_recent_itineraries_def load_itineraries_eq loaded_itineraries_def
      loaded_file_def example_sys_def example_env_def py_slice_from_def)

subsection \<open>Floats\<close>

lemma bitlen_powi:
  assumes "0 < a"
  shows "2 powi (bitlen a - 1) \<le> (of_int a :: rat)" and "(of_int a :: rat) < 2 powi bitlen a"
proof -
  from assms have b: "1 \<le> bitlen a"
    by (simp add: bitlen_alt_def)
  from bitlen_bounds [OF assms] have l: "2 ^ nat (bitlen a - 1) \<le> a" and u: "a < 2 ^ nat (bitlen a)"
    by simp_all
  from l have "(of_int (2 ^ nat (bitlen a - 1)) :: rat) \<le> of_int a"
    by (simp only: of_int_le_iff)
  with b show "2 powi (bitlen a - 1) \<le> (of_int a :: rat)"
    by (simp add: power_int_def)
  from u have "(of_int a :: rat) < of_int (2 ^ nat (bitlen a))"
    by (simp only: of_int_less_iff)
  with b show "(of_int a :: rat) < 2 powi bitlen a"
    by (simp add: power_int_def)
qed

text \<open>\<open>binade\<close> finds the power of two at or below the magnitude.\<close>

lemma binade_bounds:
  assumes "x \<noteq> 0"
  shows "2 powi binade x \<le> \<bar>x\<bar>" and "\<bar>x\<bar> < 2 powi (binade x + 1)"
proof -
  obtain a b where q: "quotient_of \<bar>x\<bar> = (a, b)"
    by (cases "quotient_of \<bar>x\<bar>")
  from quotient_of_denom_pos [OF q] have b: "0 < b" .
  from quotient_of_div [OF q] have x: "\<bar>x\<bar> = of_int a / of_int b" .
  from assms have "0 < \<bar>x\<bar>" by simp
  with x b have a: "0 < a"
    by (simp add: zero_less_divide_iff)
  let ?k = "bitlen a - bitlen b"
  have "2 powi (?k - 1) = (2::rat) powi (bitlen a - 1) / 2 powi bitlen b"
    using power_int_diff [of "2::rat" "bitlen a - 1" "bitlen b"] by (simp add: algebra_simps)
  also have "\<dots> < of_int a / of_int b"
    using bitlen_powi [OF a] bitlen_powi [OF b] b by (intro frac_less2) simp_all
  finally have lo: "2 powi (?k - 1) < \<bar>x\<bar>" by (simp add: x)
  have "of_int a / of_int b < (2::rat) powi bitlen a / 2 powi (bitlen b - 1)"
    using bitlen_powi [OF a] bitlen_powi [OF b] a b by (intro frac_less) simp_all
  also have "\<dots> = 2 powi (?k + 1)"
    using power_int_diff [of "2::rat" "bitlen a" "bitlen b - 1"] by (simp add: algebra_simps)
  finally have hi: "\<bar>x\<bar> < 2 powi (?k + 1)" by (simp add: x)
  have bin: "binade x = (if 2 powi ?k \<le> \<bar>x\<bar> then ?k else ?k - 1)"
    by (simp add: binade_def q Let_def)
  show "2 powi binade x \<le> \<bar>x\<bar>"
    using lo by (simp add: bin)
  show "\<bar>x\<bar> < 2 powi (binade x + 1)"
    using hi by (simp add: bin not_le)
qed

lemma binade_less:
  assumes "x \<noteq> 0" "\<bar>x\<bar> < 2 powi n"
  shows "binade x < n"
proof -
  from binade_bounds(1) [OF assms(1)] assms(2) have "(2::rat) powi binade x < 2 powi n"
    by simp
  then show ?thesis
    by (metis not_le one_le_numeral power_int_increasing)
qed

lemma binade_ge:
  assumes "2 powi n \<le> \<bar>x\<bar>"
  shows "n \<le> binade x"
proof -
  have "(0::rat) < 2 powi n" by simp
  with assms have "0 < \<bar>x\<bar>" by (rule less_le_trans [rotated])
  then have x: "x \<noteq> 0" by simp
  from binade_bounds(2) [OF x] assms have "(2::rat) powi n < 2 powi (binade x + 1)"
    by simp
  then have "n < binade x + 1"
    by (metis not_le one_le_numeral power_int_increasing)
  then show ?thesis by simp
qed

text \<open>The test for a value beyond the largest binary64 number is the test of its
  magnitude against \<open>2^1024\<close>.\<close>

lemma exceeds_double_iff: "exceeds_double v \<longleftrightarrow> 2 powi 1024 \<le> \<bar>v\<bar>"
proof
  assume "exceeds_double v"
  then have v: "v \<noteq> 0" and b: "1024 \<le> binade v"
    by (simp_all add: exceeds_double_def)
  from b have "(2::rat) powi 1024 \<le> 2 powi binade v"
    by (intro power_int_increasing) simp_all
  also from binade_bounds(1) [OF v] have "\<dots> \<le> \<bar>v\<bar>" .
  finally show "2 powi 1024 \<le> \<bar>v\<bar>" .
next
  assume o: "2 powi 1024 \<le> \<bar>v\<bar>"
  then have "1024 \<le> binade v" by (rule binade_ge)
  moreover have "(0::rat) < 2 powi 1024" by (rule zero_less_power_int) simp
  with o have "0 < \<bar>v\<bar>" by (rule less_le_trans [rotated])
  then have "v \<noteq> 0" by simp
  ultimately show "exceeds_double v" by (simp add: exceeds_double_def)
qed

lemma round_half_even_near: "\<bar>of_int (round_half_even y) - y\<bar> \<le> 1 / 2"
proof -
  have "of_int \<lfloor>y\<rfloor> \<le> y" "y < of_int \<lfloor>y\<rfloor> + 1"
    by linarith+
  then show ?thesis
    by (auto simp: round_half_even_def Let_def)
qed



lemma ulp_pos: "0 < ulp x"
  by (simp add: ulp_def)

text \<open>The rounding error is at most half the spacing.\<close>

lemma round_double_near: "\<bar>round_double x - x\<bar> \<le> ulp x / 2"
proof (cases "x = 0")
  case True
  then show ?thesis using ulp_pos [of x] by (simp add: round_double_def)
next
  case False
  have "\<bar>of_int (round_half_even (x / ulp x)) - x / ulp x\<bar> * ulp x \<le> 1 / 2 * ulp x"
    using round_half_even_near [of "x / ulp x"] ulp_pos [of x]
    by (intro mult_right_mono) simp_all
  moreover have "\<bar>of_int (round_half_even (x / ulp x)) - x / ulp x\<bar> * ulp x
      = \<bar>of_int (round_half_even (x / ulp x)) * ulp x - x\<bar>"
    using ulp_pos [of x] by (simp add: abs_mult [symmetric] field_simps del: abs_mult)
  ultimately show ?thesis using False by (simp add: round_double_def)
qed

text \<open>Below \<open>2^1023\<close> nothing rounds out of the binary64 range; from \<open>2^1024\<close> on
  everything does.\<close>

lemma no_overflow:
  assumes "\<bar>x\<bar> < 2 powi 1023"
  shows "\<not> exceeds_double (round_double x)"
proof
  assume e: "exceeds_double (round_double x)"
  then have v: "round_double x \<noteq> 0" and b: "1024 \<le> binade (round_double x)"
    by (simp_all add: exceeds_double_def)
  from v have x: "x \<noteq> 0" by (auto simp: round_double_def)
  from binade_less [OF x assms] have "max (binade x) (- 1022) - 52 \<le> 970" by simp
  then have "ulp x \<le> 2 powi 970"
    unfolding ulp_def by (intro power_int_increasing) simp_all
  also have "\<dots> \<le> (2::rat) powi 1023"
    by (intro power_int_increasing) simp_all
  finally have u: "ulp x \<le> 2 powi 1023" .
  have "\<bar>round_double x\<bar> \<le> \<bar>x\<bar> + ulp x / 2"
    using round_double_near [of x] by linarith
  with assms u have "\<bar>round_double x\<bar> < 2 powi 1023 + 2 powi 1023 / 2"
    by linarith
  also have "\<dots> \<le> (2::rat) powi 1023 * 2"
    by simp
  also have "\<dots> = (2::rat) powi 1024"
    using power_int_add [of "2::rat" 1023 1] by simp
  finally have "\<bar>round_double x\<bar> < 2 powi 1024" .
  from binade_less [OF v this] b show False by simp
qed


subsection \<open>The quality score\<close>

text \<open>The computation raises nothing but \<open>OverflowError\<close>; it returns for every rating
  and text length below \<open>10^300\<close>, and it raises for a text of less than 20000 characters
  as soon as sixteen times the rating reaches \<open>2^1024\<close>.\<close>

lemma calculate_quality_score_error:
  "calculate_quality_score r len = Inl x \<Longrightarrow> x = OverflowError"
  by (auto simp: calculate_quality_score_def true_divide_def py_add_def float_of_int_def
      py_min_def and_then_def Let_def split: if_splits number.splits sum.splits)

lemma small_int_no_overflow:
  assumes "\<bar>n\<bar> < 16 * 10 ^ 300"
  shows "\<not> exceeds_double (round_double (of_int n))"
proof -
  have "(16 * 10 ^ 300 :: int) \<le> 2 ^ 1023" by simp
  with assms have "\<bar>n\<bar> < 2 ^ 1023" by (rule less_le_trans)
  then have "(of_int \<bar>n\<bar> :: rat) < of_int (2 ^ 1023)" by (simp only: of_int_less_iff)
  then have "\<bar>of_int n :: rat\<bar> < 2 powi 1023" by simp
  then show ?thesis by (rule no_overflow)
qed

lemma calculate_quality_score_returns:
  assumes "\<bar>r\<bar> < 10 ^ 300" "0 \<le> len" "len < 10 ^ 300"
  shows "\<exists>score. calculate_quality_score r len = Inr score"
proof -
  from assms(1) have "\<bar>r * 16\<bar> < 16 * 10 ^ 300" by (simp add: abs_mult)
  then have a: "\<not> exceeds_double (round_double (of_int (r * 16)))"
    by (rule small_int_no_overflow)
  have "(of_int len :: rat) / 1000 \<le> of_int len" using assms(2) by simp
  moreover from assms(3) have "(of_int len :: rat) < of_int (10 ^ 300)"
    by (simp only: of_int_less_iff)
  moreover have "(of_int (10 ^ 300) :: rat) \<le> 2 powi 1023" by simp
  ultimately have "(of_int len :: rat) / 1000 < 2 powi 1023" by linarith
  with assms(2) have "\<bar>(of_int len :: rat) / of_int 1000\<bar> < 2 powi 1023" by simp
  then have b: "\<not> exceeds_double (round_double (of_int len / of_int 1000))"
    by (rule no_overflow)
  from a b show ?thesis
    by (simp add: calculate_quality_score_def true_divide_def py_min_def py_add_def
        float_of_int_def Let_def)
qed



text \<open>The floats that the interpreter prints as 0.01, 32.1 and 32.11, with the exact
  values its \<open>float.as_integer_ratio\<close> reports.\<close>

lemma round_double_examples:
  "round_double (1 / 100) = 5764607523034235 / 576460752303423488"
  "round_double (321 / 10) = 4517673376206029 / 140737488355328"
  "round_double (3211 / 100) = 2259540375544791 / 70368744177664"
  by code_simp+

text \<open>Two inputs with the same exact sum 32.105: the float sum lies below it in the one
  case and above it in the other, so the scores are the floats 32.1 and 32.11.\<close>

lemma calculate_quality_score_examples:
  "calculate_quality_score 2 105 = Inr (PyFloat (round_double (321 / 10)))"
  "calculate_quality_score 1 16105 = Inr (PyFloat (round_double (3211 / 100)))"
  "calculate_quality_score 0 11 = Inr (PyFloat (round_double (1 / 100)))"
  "calculate_quality_score 5 25000 = Inr (PyInt 100)"
  by code_simp+


subsection \<open>Recording feedback\<close>

lemma auto_train_eq: "auto_train e s = Inr (if trains e s then trained e s else s)"
  by (simp add: auto_train_def auto_train_body_def load_itineraries_eq loaded_itineraries_def
      load_training_patterns_json save_training_patterns_eq save_itineraries_eq trains_def
      trained_def loaded_patterns_def high_quality_of_def or0_def Let_def not_less)

lemma loaded_feedback_saved_itineraries [simp]:
  "loaded_feedback e (saved_itineraries e d s) = loaded_feedback e s"
  by (simp add: loaded_feedback_def saved_itineraries_def)

text \<open>The call raises what its loop raises, else what the log line raises, else it
  returns.\<close>

lemma record_feedback_eq:
  "record_feedback e s i r c =
     (case rate_first i r (sanitize_text_input c 1000) (loaded_itineraries e s) of
        Inl x \<Rightarrow> Inl x
      | Inr rated_records \<Rightarrow>
          if str_of_int_raises e r then Inl ValueError
          else Inr (after_feedback e s i r c rated_records))"
  by (simp add: record_feedback_def load_itineraries_eq save_itineraries_eq load_feedback_eq
      save_feedback_eq auto_train_eq fed_def after_feedback_def log_rating_def Let_def
      try_except_def split: sum.splits)

lemma rate_first_no_match:
  "\<forall>x\<in>set its. itin_id x \<noteq> Some i \<Longrightarrow> rate_first i r c its = Inr its"
  by (induction its) auto

lemma rate_first_nth:
  "first_with_id i its k \<Longrightarrow>
   rate_first i r c its =
     and_then (calculate_quality_score r (int (length (text_of (its ! k))))) (\<lambda>score.
       Inr (its[k := (its ! k)\<lparr>rated := Some True, rating := Some r,
                     feedback_comments := Some c, quality_score := Some score\<rparr>]))"
proof (induction its arbitrary: k)
  case Nil
  then show ?case by (simp add: first_with_id_def)
next
  case (Cons x xs)
  show ?case
  proof (cases k)
    case 0
    with Cons.prems show ?thesis by (simp add: first_with_id_def)
  next
    case (Suc m)
    from Cons.prems Suc have x: "itin_id x \<noteq> Some i"
      by (auto simp: first_with_id_def)
    from Cons.prems Suc have "first_with_id i xs m"
      by (auto simp: first_with_id_def)
    from Cons.IH [OF this] x Suc show ?thesis
      by (simp add: and_then_def split: sum.splits)
  qed
qed



lemma mark_used_fields [simp]:
  "rating (mark_used n x) = rating x"
  "rated (mark_used n x) = rated x"
  "quality_score (mark_used n x) = quality_score x"
  "feedback_comments (mark_used n x) = feedback_comments x"
  "itin_id (mark_used n x) = itin_id x"
  "city (mark_used n x) = city x"
  "destination (mark_used n x) = destination x"
  "full_itinerary (mark_used n x) = full_itinerary x"
  "itinerary_text (mark_used n x) = itinerary_text x"
  by (simp_all add: mark_used_def)

lemma text_of_mark_used [simp]: "text_of (mark_used n x) = text_of x"
  by (simp add: text_of_def split: option.splits)

lemma fed_file:
  "itineraries_file (fed e s i r c rated_records) =
     (if io_ok e WriteItineraries then rated_records else itineraries_file s)"
  by (simp add: fed_def saved_feedback_def saved_itineraries_def Let_def)

lemma fed_use_database [simp]: "use_database (fed e s i r c u) = use_database s"
  by (simp add: fed_def saved_feedback_def saved_itineraries_def Let_def)

lemma fed_patterns [simp]:
  "training_patterns_file (fed e s i r c u) = training_patterns_file s"
  by (simp add: fed_def saved_feedback_def saved_itineraries_def Let_def)

lemma rating_or0_mark_used [simp]: "rating_or0 (mark_used n x) = rating_or0 x"
  by (simp add: rating_or0_def)

lemma trained_records:
  assumes "trains e s"
  shows "3 \<le> length (itineraries_file (trained e s))"
    and "\<exists>x\<in>set (itineraries_file (trained e s)). 4 \<le> rating_or0 x"
proof -
  from assms have len: "3 \<le> length (loaded_file e s)"
    and hq: "high_quality_of (loaded_file e s) \<noteq> []"
    by (simp_all add: trains_def)
  from len have lf: "loaded_file e s = itineraries_file s"
    by (auto simp: loaded_file_def split: if_splits)
  from hq obtain x where x: "x \<in> set (itineraries_file s)" "4 \<le> rating_or0 x"
    unfolding lf high_quality_of_def by (auto simp: filter_empty_conv)
  have f: "itineraries_file (trained e s) = itineraries_file s
           \<or> (\<exists>n. itineraries_file (trained e s) = map (mark_used n) (itineraries_file s))"
    by (auto simp: trained_def saved_itineraries_def saved_patterns_def lf Let_def)
  from f len lf show "3 \<le> length (itineraries_file (trained e s))" by auto
  from f x show "\<exists>x\<in>set (itineraries_file (trained e s)). 4 \<le> rating_or0 x"
    by (elim disjE exE) (simp_all, blast+)
qed

lemma trained_file_cases:
  assumes "trains e s"
  shows "itineraries_file (trained e s) = itineraries_file s
         \<or> (\<exists>n. itineraries_file (trained e s) = map (mark_used n) (itineraries_file s))"
proof -
  from assms have "3 \<le> length (loaded_file e s)"
    by (simp add: trains_def)
  then have "loaded_file e s = itineraries_file s"
    by (auto simp: loaded_file_def split: if_splits)
  then show ?thesis
    by (auto simp: trained_def saved_itineraries_def saved_patterns_def Let_def)
qed

text \<open>The file after a call that returned: what the two writes left, with or without the
  stamps of a pass.\<close>

lemma after_feedback_file:
  "itineraries_file (after_feedback e s i r c u) = itineraries_file (fed e s i r c u)
   \<or> (\<exists>n. itineraries_file (after_feedback e s i r c u)
            = map (mark_used n) (itineraries_file (fed e s i r c u)))"
  using trained_file_cases [of e "fed e s i r c u"]
  by (auto simp: after_feedback_def Let_def)


lemma str_of_int_small:
  assumes "\<bar>n\<bar> < 10 ^ k" "int_max_str_digits e = 0 \<or> k \<le> int_max_str_digits e"
  shows "\<not> str_of_int_raises e n"
proof
  assume "str_of_int_raises e n"
  then have p: "0 < int_max_str_digits e" and l: "10 ^ int_max_str_digits e \<le> \<bar>n\<bar>"
    by (simp_all add: str_of_int_raises_def)
  from p assms(2) have "k \<le> int_max_str_digits e" by simp
  then have "(10::int) ^ k \<le> 10 ^ int_max_str_digits e"
    by (intro power_increasing) simp_all
  with l assms(1) show False by linarith
qed

lemma example_env_digits: "int_max_str_digits example_env = 0 \<or> 1 \<le> int_max_str_digits example_env"
  by (simp add: example_env_def)

lemma example_env_str: "\<bar>n\<bar> < 10 \<Longrightarrow> \<not> str_of_int_raises example_env n"
  using str_of_int_small [of n 1 example_env] example_env_digits by simp

lemma example_first:
  "first_with_id 1 (loaded_itineraries example_env (example_sys [example_entry 1 ''paris''])) 0"
  by (simp add: first_with_id_def loaded_itineraries_def loaded_file_def example_sys_def
      example_env_def example_entry_def itinerary_entry_def)

lemma example_text: "int (length (text_of (example_entry i c))) = 11"
  by (simp add: text_of_def example_entry_def itinerary_entry_def)


lemma example_loads: "loaded_itineraries example_env (example_sys its) = its"
  by (simp add: loaded_itineraries_def loaded_file_def example_sys_def example_env_def)

lemma example_rate_first:
  "calculate_quality_score r 11 = Inr score \<Longrightarrow>
   rate_first 1 r [] [example_entry 1 ''paris'']
     = Inr [(example_entry 1 ''paris'')
              \<lparr>rated := Some True, rating := Some r, feedback_comments := Some [],
               quality_score := Some score\<rparr>]"
  using example_text [of 1 "''paris''"]
  by (simp add: example_entry_def itinerary_entry_def)

text \<open>
  C1 (as stated). The rating stored on the matching record is to lie in the range 1..5
  whatever integer is submitted. It does not: \<open>record_feedback\<close> stores the argument as
  it is. Rating 0 submitted for the only record of a store leaves that record with
  \<open>rating = 0\<close> and \<open>rated = True\<close>; its score is the float 0.01.
\<close>

theorem record_feedback_rating_not_coerced:
  "record_feedback example_env (example_sys [example_entry 1 ''paris'']) 1 0 []
     = Inr ((example_sys
              [(example_entry 1 ''paris'')
                 \<lparr>rated := Some True, rating := Some 0, feedback_comments := Some [],
                  quality_score := Some (PyFloat (round_double (1 / 100)))\<rparr>])
            \<lparr>feedback_file :=
               [\<lparr>fb_timestamp = ''2024-01-01T00:00:00'', fb_itinerary_id = 1,
                 fb_rating = 0, fb_comments = []\<rparr>]\<rparr>)"
proof -
  have s: "sanitize_text_input [] 1000 = []"
    by (simp add: sanitize_text_input_def)
  have l: "\<not> str_of_int_raises example_env 0"
    by (rule example_env_str) simp
  have f: "after_feedback example_env (example_sys [example_entry 1 ''paris'']) 1 0 []
        [(example_entry 1 ''paris'')
           \<lparr>rated := Some True, rating := Some 0, feedback_comments := Some [],
            quality_score := Some (PyFloat (round_double (1 / 100)))\<rparr>]
      = (example_sys
              [(example_entry 1 ''paris'')
                 \<lparr>rated := Some True, rating := Some 0, feedback_comments := Some [],
                  quality_score := Some (PyFloat (round_double (1 / 100)))\<rparr>])
            \<lparr>feedback_file :=
               [\<lparr>fb_timestamp = ''2024-01-01T00:00:00'', fb_itinerary_id = 1,
                 fb_rating = 0, fb_comments = []\<rparr>]\<rparr>"
    by (simp add: after_feedback_def fed_def loaded_feedback_def saved_feedback_def
        saved_itineraries_def example_sys_def example_env_def sanitize_text_input_def Let_def)
  show ?thesis
    unfolding record_feedback_eq s example_loads
      example_rate_first [OF calculate_quality_score_examples(3)]
    using l by (simp add: f)
qed

text \<open>
  C1 (amended). No coercion is applied. With the write of the itineraries file
  succeeding, the first loaded record that carries the given id (a row of the relational
  backend when it answers, else a record of the file) ends with exactly the submitted
  rating whenever the call returns, so the stored rating lies in 1..5 exactly when the
  submitted one does. The call does not return in two cases, which the theorem names:
  the score of that record overflows (\<open>OverflowError\<close>, raised before either file is
  written), or the rating has more digits than the interpreter converts to a string
  (\<open>ValueError\<close>).
\<close>

theorem record_feedback_stores_rating:
  assumes "io_ok e WriteItineraries" and "first_with_id i (loaded_itineraries e s) k"
  shows "if calculate_quality_score r (int (length (text_of (loaded_itineraries e s ! k))))
            = Inl OverflowError
         then record_feedback e s i r c = Inl OverflowError
         else if str_of_int_raises e r then record_feedback e s i r c = Inl ValueError
         else (\<exists>s'. record_feedback e s i r c = Inr s'
                  \<and> rating (itineraries_file s' ! k) = Some r)"
proof (cases "calculate_quality_score r (int (length (text_of (loaded_itineraries e s ! k))))")
  case (Inl x)
  then have "x = OverflowError" by (rule calculate_quality_score_error)
  with Inl show ?thesis
    by (simp add: record_feedback_eq rate_first_nth [OF assms(2)])
next
  case (Inr score)
  let ?U = "(loaded_itineraries e s)
              [k := (loaded_itineraries e s ! k)
                 \<lparr>rated := Some True, rating := Some r,
                  feedback_comments := Some (sanitize_text_input c 1000),
                  quality_score := Some score\<rparr>]"
  from assms(2) have k: "k < length ?U" by (simp add: first_with_id_def)
  then have u: "rating (?U ! k) = Some r" by simp
  have rf: "rate_first i r (sanitize_text_input c 1000) (loaded_itineraries e s) = Inr ?U"
    by (simp add: rate_first_nth [OF assms(2)] Inr)
  have "itineraries_file (fed e s i r c ?U) = ?U"
    using assms(1) by (simp add: fed_file)
  with after_feedback_file [of e s i r c ?U]
  have "itineraries_file (after_feedback e s i r c ?U) = ?U
        \<or> (\<exists>n. itineraries_file (after_feedback e s i r c ?U) = map (mark_used n) ?U)"
    by simp
  with k u have "rating (itineraries_file (after_feedback e s i r c ?U) ! k) = Some r"
    by (elim disjE exE) simp_all
  with Inr show ?thesis
    by (simp add: record_feedback_eq rf)
qed

theorem record_feedback_stores_rating_witness:
  "io_ok example_env WriteItineraries
   \<and> first_with_id 1 (loaded_itineraries example_env (example_sys [example_entry 1 ''paris''])) 0
   \<and> (\<exists>s'. record_feedback example_env (example_sys [example_entry 1 ''paris'']) 1 7 [] = Inr s'
          \<and> rating (itineraries_file s' ! 0) = Some 7)"
proof -
  have w: "io_ok example_env WriteItineraries"
    by (simp add: example_env_def)
  have t: "int (length (text_of
             (loaded_itineraries example_env (example_sys [example_entry 1 ''paris'']) ! 0))) = 11"
    unfolding example_loads by (simp add: example_text)
  from calculate_quality_score_returns [of 7 11] obtain score where
    "calculate_quality_score 7 11 = Inr score" by auto
  then have a: "calculate_quality_score 7 11 \<noteq> Inl OverflowError" by simp
  have b: "\<not> str_of_int_raises example_env 7"
    by (rule example_env_str) simp
  from record_feedback_stores_rating [OF w example_first, of 7 "[]"] a b
  have "\<exists>s'. record_feedback example_env (example_sys [example_entry 1 ''paris'']) 1 7 [] = Inr s'
          \<and> rating (itineraries_file s' ! 0) = Some 7"
    unfolding t by simp
  with w example_first show ?thesis by (intro conjI)
qed

text \<open>
  C2. After a rating the record's score is to be
  \<open>round(r * 16 + min(20, len / 1000), 2)\<close> on every path. \<open>_calculate_quality_score\<close>
  computes that, but the \<open>UPDATE\<close> of \<open>DatabaseManager.rate_itinerary\<close>, which rates the
  record in the relational store, computes \<open>r * 16.0 + character_count / 1000.0\<close>: the
  cap of 20 on the length bonus is missing (and so is the rounding). For rating 5 on a
  text of 25000 characters the row gets the score 105, where the formula, and the
  flat-file path, give 100.
\<close>

theorem rate_itinerary_score_not_capped:
  "rate_itinerary example_env 1 5 []
     [\<lparr>row_id = 1, row_rating = None, row_feedback_comments = None, row_rated_at = None,
       row_character_count = 25000, row_quality_score = None\<rparr>]
     = [\<lparr>row_id = 1, row_rating = Some 5, row_feedback_comments = Some [],
         row_rated_at = Some ''2024-01-01T00:00:00'', row_character_count = 25000,
         row_quality_score = Some 105\<rparr>]
   \<and> calculate_quality_score 5 25000 = Inr (PyInt 100)"
  by (simp add: rate_itinerary_def example_env_def calculate_quality_score_examples)

subsection \<open>Storing an itinerary\<close>

lemma primary_create_eq: "primary_create e s = Inr (created_primary e s)"
  by (simp add: primary_create_def created_primary_def split: sum.splits)

text \<open>
  C3. \<open>store_complete_itinerary\<close> always returns, and whatever the relational write did
  (backend off, failed, or succeeded) it hands the flat-file collection with one new
  record appended to \<open>_save_itineraries\<close>. The new record carries the returned id: the id
  of the relational write when there is one, else the length of the collection as read
  plus 1. When the disk accepts the write, the file holds the collection with that record
  at its end.
\<close>

theorem store_complete_itinerary_dual_write:
  "\<exists>rid. store_complete_itinerary e s c d b ints st f t pc txt =
            Inr (rid, saved_itineraries e
                        (loaded_file e s @ [itinerary_entry e rid c d b ints st f t pc txt]) s)
        \<and> itin_id (itinerary_entry e rid c d b ints st f t pc txt) = Some rid
        \<and> (\<forall>i. created_primary e s = Some i \<longrightarrow> rid = i)
        \<and> (created_primary e s = None \<longrightarrow> rid = int (length (loaded_file e s)) + 1)
        \<and> (io_ok e WriteItineraries \<longrightarrow>
             itineraries_file
               (saved_itineraries e
                  (loaded_file e s @ [itinerary_entry e rid c d b ints st f t pc txt]) s)
             = loaded_file e s @ [itinerary_entry e rid c d b ints st f t pc txt])"
  by (cases "created_primary e s")
    (simp_all add: store_complete_itinerary_def primary_create_eq read_itineraries_file_def
      loaded_file_def save_itineraries_eq saved_itineraries_def itinerary_entry_def Let_def)

theorem store_complete_itinerary_dual_write_witness:
  "created_primary example_env (example_sys [example_entry 1 ''paris'']) = None
   \<and> store_complete_itinerary example_env (example_sys [example_entry 1 ''paris''])
        ''tokyo'' 3 ''Moderate'' [] [] True True [] ''Day 1: walk''
      = Inr (2, example_sys [example_entry 1 ''paris'', example_entry 2 ''tokyo''])
   \<and> created_primary example_db_env ((example_sys [example_entry 1 ''paris''])\<lparr>use_database := True\<rparr>)
      = Some 7
   \<and> store_complete_itinerary example_db_env
        ((example_sys [example_entry 1 ''paris''])\<lparr>use_database := True\<rparr>)
        ''tokyo'' 3 ''Moderate'' [] [] True True [] ''Day 1: walk''
      = Inr (7, (example_sys [example_entry 1 ''paris'', example_entry 7 ''tokyo''])
                  \<lparr>use_database := True\<rparr>)"
proof -
  let ?s = "example_sys [example_entry 1 ''paris'']"
  let ?t = "?s\<lparr>use_database := True\<rparr>"
  have n: "created_primary example_env ?s = None"
    by (simp add: created_primary_def example_sys_def)
  have m: "created_primary example_db_env ?t = Some 7"
    by (simp add: created_primary_def example_db_env_def example_env_def)
  have l: "loaded_file example_env ?s = [example_entry 1 ''paris'']"
    by (simp add: loaded_file_def example_env_def example_sys_def)
  have l': "loaded_file example_db_env ?t = [example_entry 1 ''paris'']"
    by (simp add: loaded_file_def example_env_def example_db_env_def example_sys_def)
  have w: "io_ok example_env WriteItineraries"
    by (simp add: example_env_def)
  have w': "io_ok example_db_env WriteItineraries"
    by (simp add: example_env_def example_db_env_def)
  have sv: "saved_itineraries example_env
              ([example_entry 1 ''paris''] @ [example_entry 2 ''tokyo'']) ?s
            = example_sys [example_entry 1 ''paris'', example_entry 2 ''tokyo'']"
    unfolding saved_itineraries_def example_sys_def using w by simp
  have sv': "saved_itineraries example_db_env
              ([example_entry 1 ''paris''] @ [example_entry 7 ''tokyo'']) ?t
            = (example_sys [example_entry 1 ''paris'', example_entry 7 ''tokyo''])
                \<lparr>use_database := True\<rparr>"
    unfolding saved_itineraries_def example_sys_def using w' by simp
  have en: "itinerary_entry example_env 2 ''tokyo'' 3 ''Moderate'' [] [] True True []
              ''Day 1: walk'' = example_entry 2 ''tokyo''"
    by (simp only: example_entry_def)
  have "now example_db_env = now example_env"
    by (simp add: example_db_env_def)
  then have en': "itinerary_entry example_db_env 7 ''tokyo'' 3 ''Moderate'' [] [] True True []
              ''Day 1: walk'' = example_entry 7 ''tokyo''"
    unfolding example_entry_def itinerary_entry_def by simp
  from store_complete_itinerary_dual_write
    [of example_env ?s "''tokyo''" 3 "''Moderate''" "[]" "[]" True True "[]" "''Day 1: walk''"]
  obtain rid where
    r: "store_complete_itinerary example_env ?s
          ''tokyo'' 3 ''Moderate'' [] [] True True [] ''Day 1: walk''
        = Inr (rid, saved_itineraries example_env
                 (loaded_file example_env ?s @
                    [itinerary_entry example_env rid ''tokyo'' 3 ''Moderate'' [] [] True True []
                       ''Day 1: walk'']) ?s)"
    and i: "created_primary example_env ?s = None
              \<longrightarrow> rid = int (length (loaded_file example_env ?s)) + 1"
    by (elim exE conjE) (erule that, assumption)
  from i n have "rid = int (length (loaded_file example_env ?s)) + 1" by (rule mp)
  then have rid: "rid = 2" unfolding l by simp
  have a: "store_complete_itinerary example_env ?s
        ''tokyo'' 3 ''Moderate'' [] [] True True [] ''Day 1: walk''
      = Inr (2, example_sys [example_entry 1 ''paris'', example_entry 2 ''tokyo''])"
    unfolding r rid l en sv ..
  from store_complete_itinerary_dual_write
    [of example_db_env ?t "''tokyo''" 3 "''Moderate''" "[]" "[]" True True "[]" "''Day 1: walk''"]
  obtain rid' where
    r': "store_complete_itinerary example_db_env ?t
          ''tokyo'' 3 ''Moderate'' [] [] True True [] ''Day 1: walk''
        = Inr (rid', saved_itineraries example_db_env
                 (loaded_file example_db_env ?t @
                    [itinerary_entry example_db_env rid' ''tokyo'' 3 ''Moderate'' [] [] True True []
                       ''Day 1: walk'']) ?t)"
    and i': "\<forall>i. created_primary example_db_env ?t = Some i \<longrightarrow> rid' = i"
    by (elim exE conjE) (erule that, assumption)
  from i' m have rid': "rid' = 7" by (elim allE [where x = 7]) (erule mp)
  have b: "store_complete_itinerary example_db_env ?t
        ''tokyo'' 3 ''Moderate'' [] [] True True [] ''Day 1: walk''
      = Inr (7, (example_sys [example_entry 1 ''paris'', example_entry 7 ''tokyo''])
                  \<lparr>use_database := True\<rparr>)"
    unfolding r' rid' l' en' sv' ..
  show ?thesis
    by (intro conjI n a m b)
qed

subsection \<open>Feedback and the trigger of the auto-train pass\<close>

lemma unstamped_mark_used [simp]: "unstamped (mark_used n x) = unstamped x"
  by (simp add: unstamped_def mark_used_def)

lemma example_store_count: "Suc (length (loaded_feedback example_env example_store)) mod 3 = 0"
  by (simp add: loaded_feedback_def example_env_def example_store_def)

lemma example_store_records:
  "loaded_itineraries example_env example_store
     = [example_rated 1 ''paris'' 5, example_entry 2 ''tokyo'', example_entry 3 ''rome'']"
  by (simp add: loaded_itineraries_def loaded_file_def example_store_def example_sys_def
      example_env_def)

lemma example_store_fed:
  "fed example_env example_store 99 3 []
     [example_rated 1 ''paris'' 5, example_entry 2 ''tokyo'', example_entry 3 ''rome'']
   = example_store\<lparr>feedback_file :=
       [example_feedback 1 5, example_feedback 1 5, example_feedback 99 3]\<rparr>"
  by (simp add: fed_def saved_itineraries_def saved_feedback_def loaded_feedback_def
      sanitize_text_input_def example_env_def example_store_def example_sys_def
      example_feedback_def Let_def)


lemma example_store_loaded:
  "loaded_file example_env
     (example_store\<lparr>feedback_file :=
        [example_feedback 1 5, example_feedback 1 5, example_feedback 99 3]\<rparr>)
   = [example_rated 1 ''paris'' 5, example_entry 2 ''tokyo'', example_entry 3 ''rome'']"
  by (simp add: loaded_file_def example_env_def example_store_def example_sys_def)

lemma example_ratings:
  "rating_or0 (example_rated 1 ''paris'' 5) = 5"
  "rating_or0 (example_entry 2 ''tokyo'') = 0"
  "rating_or0 (example_entry 3 ''rome'') = 0"
  by (simp_all add: rating_or0_def example_rated_def example_entry_def itinerary_entry_def)

lemma example_store_trains:
  "trains example_env
     (example_store\<lparr>feedback_file :=
        [example_feedback 1 5, example_feedback 1 5, example_feedback 99 3]\<rparr>)"
  unfolding trains_def example_store_loaded high_quality_of_def
  by (simp add: example_ratings example_store_def example_sys_def)

lemma train_patterns_iterations:
  "training_iterations (train_patterns e hq p) = Some (or0 (training_iterations p) + 1)"
  by (simp add: train_patterns_def or0_def Let_def)

lemma example_marks:
  "mark_used 1 (example_rated 1 ''paris'' 5)
     = (example_rated 1 ''paris'' 5)\<lparr>used_for_training := Some True, training_iteration := Some 1\<rparr>"
  "mark_used 1 (example_entry 2 ''tokyo'') = example_entry 2 ''tokyo''"
  "mark_used 1 (example_entry 3 ''rome'') = example_entry 3 ''rome''"
  unfolding mark_used_def example_ratings
  by (simp_all add: example_rated_def example_entry_def itinerary_entry_def)

lemma example_store_trained:
  "trained example_env
     (example_store\<lparr>feedback_file :=
        [example_feedback 1 5, example_feedback 1 5, example_feedback 99 3]\<rparr>)
   = example_store
       \<lparr>itineraries_file :=
          [(example_rated 1 ''paris'' 5)
             \<lparr>used_for_training := Some True, training_iteration := Some 1\<rparr>,
           example_entry 2 ''tokyo'', example_entry 3 ''rome''],
        feedback_file := [example_feedback 1 5, example_feedback 1 5, example_feedback 99 3],
        training_patterns_file :=
          train_patterns example_env [example_rated 1 ''paris'' 5]
            (generate_initial_patterns example_env)\<rparr>"
proof -
  have p: "loaded_patterns example_env
     (example_store\<lparr>feedback_file :=
        [example_feedback 1 5, example_feedback 1 5, example_feedback 99 3]\<rparr>)
     = generate_initial_patterns example_env"
    by (simp add: loaded_patterns_def example_env_def example_store_def example_sys_def)
  have h: "high_quality_of
      [example_rated 1 ''paris'' 5, example_entry 2 ''tokyo'', example_entry 3 ''rome'']
     = [example_rated 1 ''paris'' 5]"
    by (simp add: high_quality_of_def example_ratings)
  have i: "or0 (training_iterations (generate_initial_patterns example_env)) = 0"
    by (simp add: generate_initial_patterns_def or0_def)
  have w: "io_ok example_env WriteItineraries" "io_ok example_env WritePatterns"
    by (simp_all add: example_env_def)
  show ?thesis
    unfolding trained_def example_store_loaded p h Let_def train_patterns_iterations i
    by (simp add: example_marks saved_itineraries_def saved_patterns_def w or0_def)
qed

lemma example_store_no_99:
  "\<forall>x\<in>set [example_rated 1 ''paris'' 5, example_entry 2 ''tokyo'', example_entry 3 ''rome''].
     itin_id x \<noteq> Some 99"
  by (simp add: example_rated_def example_entry_def itinerary_entry_def)

lemma example_store_run:
  "record_feedback example_env example_store 99 3 [] = Inr example_store_after"
proof -
  have s: "sanitize_text_input [] 1000 = []"
    by (simp add: sanitize_text_input_def)
  have l: "\<not> str_of_int_raises example_env 3"
    by (rule example_env_str) simp
  have a: "after_feedback example_env example_store 99 3 []
        [example_rated 1 ''paris'' 5, example_entry 2 ''tokyo'', example_entry 3 ''rome'']
      = example_store_after"
    unfolding after_feedback_def Let_def example_store_fed example_store_after_def
    using example_store_count example_store_trains
    by (simp add: example_store_trained)
  show ?thesis
    unfolding record_feedback_eq s example_store_records
      rate_first_no_match [OF example_store_no_99]
    using l by (simp add: a)
qed

lemma example_store_patterns_change:
  "training_patterns_file example_store_after \<noteq> training_patterns_file example_store"
proof
  assume "training_patterns_file example_store_after = training_patterns_file example_store"
  then have "training_iterations (training_patterns_file example_store_after)
             = training_iterations (training_patterns_file example_store)"
    by (rule arg_cong)
  then show False
    by (simp add: example_store_after_def example_store_def example_sys_def
        train_patterns_iterations generate_initial_patterns_def or0_def)
qed

text \<open>
  C4. A call of \<open>record_feedback\<close> changes the training-patterns document only if the
  feedback count after the submission (the entries loaded plus the new one) is a multiple
  of 3, the store has no relational backend, at least three itinerary records exist and
  one of them has rating 4 or more (a missing rating counting as 0). For the counts 1, 2,
  4 and 5 the first condition fails, so the document is left as it was.
\<close>

theorem record_feedback_trains_only_when:
  assumes "record_feedback e s i r c = Inr s'"
    and "training_patterns_file s' \<noteq> training_patterns_file s"
  shows "Suc (length (loaded_feedback e s)) mod 3 = 0
         \<and> \<not> use_database s
         \<and> 3 \<le> length (itineraries_file s')
         \<and> (\<exists>x\<in>set (itineraries_file s'). 4 \<le> rating_or0 x)"
proof -
  from assms(1) obtain u where u: "s' = after_feedback e s i r c u"
    by (auto simp: record_feedback_eq split: sum.splits if_splits)
  let ?F = "fed e s i r c u"
  from u assms(2) have m: "Suc (length (loaded_feedback e s)) mod 3 = 0"
    and t: "trains e ?F" and s': "s' = trained e ?F"
    by (auto simp: after_feedback_def Let_def split: if_splits)
  from t have "\<not> use_database s" by (simp add: trains_def)
  with m trained_records [OF t] s' show ?thesis by simp
qed

theorem record_feedback_trains_only_when_witness:
  "record_feedback example_env example_store 99 3 [] = Inr example_store_after
   \<and> training_patterns_file example_store_after \<noteq> training_patterns_file example_store
   \<and> Suc (length (loaded_feedback example_env example_store)) mod 3 = 0
   \<and> \<not> use_database example_store
   \<and> 3 \<le> length (itineraries_file example_store_after)
   \<and> (\<exists>x\<in>set (itineraries_file example_store_after). 4 \<le> rating_or0 x)"
  using example_store_run example_store_patterns_change
    record_feedback_trains_only_when [OF example_store_run example_store_patterns_change]
  by (intro conjI) (elim conjE, assumption)+

subsection \<open>What a feedback call can do to its caller and to the records\<close>






subsection \<open>The insight list\<close>

lemma py_slice_last: "py_slice_from (- int (Suc k)) xs = drop (length xs - Suc k) xs"
  by (auto simp: py_slice_from_def Let_def max_def nat_diff_distrib' intro: arg_cong [where f = "\<lambda>n. drop n xs"])

lemma py_slice_15: "py_slice_from (- 15) xs = drop (length xs - 15) xs"
  using py_slice_last [of 14 xs] by simp

lemma add_insight_step:
  assumes "distinct l" "length l \<le> 15"
  shows "\<exists>l'. add_insight x (Some l) = Some l' \<and> distinct l' \<and> length l' \<le> 15
              \<and> set l' \<subseteq> insert x (set l)"
proof (cases "x = [] \<or> x \<in> set l")
  case True
  with assms show ?thesis by (auto simp: add_insight_def)
next
  case False
  then have "add_insight x (Some l) = Some (drop (length (l @ [x]) - 15) (l @ [x]))"
    by (simp add: add_insight_def py_slice_15)
  moreover from assms False have "distinct (l @ [x])" by simp
  then have "distinct (drop (length (l @ [x]) - 15) (l @ [x]))" by (rule distinct_drop)
  moreover have "length (drop (length (l @ [x]) - 15) (l @ [x])) \<le> 15" by simp
  moreover have "set (drop (length (l @ [x]) - 15) (l @ [x])) \<subseteq> insert x (set l)"
    using set_drop_subset [of "length (l @ [x]) - 15" "l @ [x]"] by auto
  ultimately show ?thesis by blast
qed

lemma add_insight_None:
  "\<exists>l'. (add_insight x None = Some l' \<or> add_insight x None = None \<and> l' = [])
        \<and> distinct l' \<and> length l' \<le> 15 \<and> set l' \<subseteq> {x}"
  by (auto simp: add_insight_def py_slice_15)

lemma trained_patterns:
  "training_patterns_file (trained e s) =
     (if io_ok e WritePatterns
      then train_patterns e (high_quality_of (loaded_file e s)) (loaded_patterns e s)
      else training_patterns_file s)"
  by (simp add: trained_def saved_itineraries_def saved_patterns_def Let_def)

lemma train_patterns_insights:
  "quality_improvement_insights (train_patterns e hq p) =
     add_insight (generate_training_insight e hq) (quality_improvement_insights p)"
  by (simp add: train_patterns_def Let_def)

lemma auto_train_insights:
  assumes "distinct (insights_of s)" "length (insights_of s) \<le> 15"
  shows "\<exists>s' x. auto_train e s = Inr s' \<and> distinct (insights_of s')
               \<and> length (insights_of s') \<le> 15
               \<and> set (insights_of s') \<subseteq> insert x (set (insights_of s))"
proof (cases "trains e s \<and> io_ok e WritePatterns")
  case False
  then have "auto_train e s = Inr s \<or>
     (auto_train e s = Inr (trained e s) \<and> insights_of (trained e s) = insights_of s)"
    by (auto simp: auto_train_eq insights_of_def trained_patterns)
  with assms show ?thesis by auto
next
  case True
  let ?x = "generate_training_insight e (high_quality_of (loaded_file e s))"
  let ?p = "loaded_patterns e s"
  have eq: "auto_train e s = Inr (trained e s)"
    using True by (simp add: auto_train_eq)
  have ins: "insights_of (trained e s) =
      (case add_insight ?x (quality_improvement_insights ?p) of None \<Rightarrow> [] | Some l \<Rightarrow> l)"
    using True by (simp add: insights_of_def trained_patterns train_patterns_insights)
  have "\<exists>l'. insights_of (trained e s) = l' \<and> distinct l' \<and> length l' \<le> 15
              \<and> set l' \<subseteq> insert ?x (set (insights_of s))"
  proof (cases "quality_improvement_insights ?p")
    case None
    with add_insight_None [of ?x] ins show ?thesis by auto
  next
    case (Some l)
    have "l = insights_of s \<or> l = []"
      using Some by (auto simp: loaded_patterns_def insights_of_def generate_initial_patterns_def
          split: if_splits)
    with assms have "distinct l" "length l \<le> 15" "set l \<subseteq> set (insights_of s)" by auto
    with add_insight_step [of l ?x] Some ins show ?thesis by auto
  qed
  with eq show ?thesis by blast
qed

text \<open>
  C6. The insight list is kept free of duplicates and at most 15 long by any number of
  auto-train passes: from a list without duplicates and of length at most 15 (the seed
  document has the empty list), after the passes \<open>es\<close> the list again has no duplicates
  and at most 15 entries, and it holds at most one string per pass that it did not hold
  before.
\<close>

theorem insights_invariant:
  assumes "distinct (insights_of s)" "length (insights_of s) \<le> 15"
  shows "\<exists>s'. auto_train_passes es s = Inr s' \<and> distinct (insights_of s')
            \<and> length (insights_of s') \<le> 15
            \<and> card (set (insights_of s') - set (insights_of s)) \<le> length es"
  using assms
proof (induction es arbitrary: s)
  case Nil
  then show ?case by simp
next
  case (Cons e es)
  from auto_train_insights [OF Cons.prems, of e] obtain s1 x where
    s1: "auto_train e s = Inr s1" and d1: "distinct (insights_of s1)"
    and l1: "length (insights_of s1) \<le> 15"
    and sub: "set (insights_of s1) \<subseteq> insert x (set (insights_of s))"
    by blast
  from Cons.IH [OF d1 l1] obtain s' where
    s': "auto_train_passes es s1 = Inr s'" and d: "distinct (insights_of s')"
    and l: "length (insights_of s') \<le> 15"
    and c: "card (set (insights_of s') - set (insights_of s1)) \<le> length es"
    by blast
  have "set (insights_of s') - set (insights_of s)
        \<subseteq> insert x (set (insights_of s') - set (insights_of s1))"
    using sub by auto
  then have "card (set (insights_of s') - set (insights_of s))
             \<le> card (insert x (set (insights_of s') - set (insights_of s1)))"
    by (intro card_mono) auto
  also have "\<dots> \<le> Suc (card (set (insights_of s') - set (insights_of s1)))"
    by (rule card_insert_le_m1 [THEN order_trans]) auto
  finally have "card (set (insights_of s') - set (insights_of s)) \<le> length (e # es)"
    using c by simp
  with s1 s' d l show ?case by simp
qed

theorem insights_invariant_witness:
  "distinct (insights_of example_store) \<and> length (insights_of example_store) \<le> 15
   \<and> (\<exists>s'. auto_train_passes [example_env, example_env] example_store = Inr s'
          \<and> distinct (insights_of s') \<and> length (insights_of s') \<le> 15
          \<and> card (set (insights_of s') - set (insights_of example_store)) \<le> 2)"
proof -
  have i: "insights_of example_store = []"
    by (simp add: insights_of_def example_store_def example_sys_def generate_initial_patterns_def)
  have a: "distinct (insights_of example_store)" and b: "length (insights_of example_store) \<le> 15"
    unfolding i by simp_all
  have n: "length [example_env, example_env] = 2" by simp
  from insights_invariant [OF a b, of "[example_env, example_env]"] a b
  show ?thesis unfolding n by (intro conjI)
qed

subsection \<open>The count of high-rated cities\<close>

lemma count_in_Nil: "count_in [] c = 0"
  by (simp add: count_in_def)

lemma count_in_count_city:
  "count_in (count_city cities i) c =
     count_in cities c + (if title (city_of i) = c then 1 else 0)"
  by (simp add: count_in_def count_city_def Let_def update_conv')

lemma count_in_foldl:
  "count_in (foldl count_city cities its) c =
     count_in cities c + int (length (filter (\<lambda>i. title (city_of i) = c) its))"
  by (induction its arbitrary: cities) (simp_all add: count_in_count_city)

lemma train_patterns_count:
  "(case successful (train_patterns e hq p) of
      None \<Rightarrow> 0
    | Some sp \<Rightarrow> (case high_rated_cities sp of None \<Rightarrow> 0 | Some cities \<Rightarrow> count_in cities c))
   = (case successful p of
        None \<Rightarrow> 0
      | Some sp \<Rightarrow> (case high_rated_cities sp of None \<Rightarrow> 0 | Some cities \<Rightarrow> count_in cities c))
     + int (length (filter (\<lambda>i. title (city_of i) = c) hq))"
  by (simp add: train_patterns_def Let_def count_in_foldl empty_successful_patterns_def
      count_in_Nil split: option.splits)

lemma city_of_mark_used [simp]: "city_of (mark_used n x) = city_of x"
  by (simp add: city_of_def split: option.splits)

lemma high_rated_in_mark [simp]: "high_rated_in c (map (mark_used n) its) = high_rated_in c its"
  by (simp add: high_rated_in_def filter_map o_def)

lemma auto_train_count:
  assumes "\<not> use_database s" "disk_ok e" "3 \<le> length (itineraries_file s)"
  shows "\<exists>s'. auto_train e s = Inr s' \<and> \<not> use_database s'
            \<and> length (itineraries_file s') = length (itineraries_file s)
            \<and> high_rated_in c (itineraries_file s') = high_rated_in c (itineraries_file s)
            \<and> high_rated_count s' c
                = high_rated_count s c + int (high_rated_in c (itineraries_file s))"
proof -
  from assms(2) have ok: "io_ok e ReadItineraries" "io_ok e WriteItineraries"
    "io_ok e ReadPatterns" "io_ok e WritePatterns"
    by (simp_all add: disk_ok_def)
  have lf: "loaded_file e s = itineraries_file s"
    using ok by (simp add: loaded_file_def)
  have lp: "loaded_patterns e s = training_patterns_file s"
    using ok by (simp add: loaded_patterns_def)
  have f: "filter (\<lambda>i. title (city_of i) = c) (high_quality_of (itineraries_file s))
           = filter (\<lambda>i. 4 \<le> rating_or0 i \<and> title (city_of i) = c) (itineraries_file s)"
    by (simp add: high_quality_of_def conj_commute)
  show ?thesis
  proof (cases "high_quality_of (itineraries_file s) = []")
    case True
    then have "high_rated_in c (itineraries_file s) = 0"
      using f by (simp add: high_rated_in_def)
    with True assms show ?thesis
      by (simp add: auto_train_eq trains_def lf)
  next
    case False
    with assms have t: "auto_train e s = Inr (trained e s)"
      by (simp add: auto_train_eq trains_def lf)
    have u: "\<not> use_database (trained e s)"
      using assms(1) by (simp add: trained_def saved_itineraries_def saved_patterns_def Let_def)
    have i: "\<exists>n. itineraries_file (trained e s) = map (mark_used n) (itineraries_file s)"
      using ok by (auto simp: trained_def saved_itineraries_def saved_patterns_def lf Let_def)
    have p: "high_rated_count (trained e s) c
             = high_rated_count s c + int (high_rated_in c (itineraries_file s))"
      using ok train_patterns_count [where e = e and p = "training_patterns_file s"
          and hq = "high_quality_of (itineraries_file s)" and c = c]
      by (simp add: high_rated_count_def trained_patterns lf lp f high_rated_in_def)
    from i obtain n where "itineraries_file (trained e s) = map (mark_used n) (itineraries_file s)"
      by blast
    with t u p show ?thesis by simp
  qed
qed

lemma title_examples:
  "title ''paris'' = ''Paris''" "title ''tokyo'' = ''Tokyo''" "title ''rome'' = ''Rome''"
  by code_simp+

lemma example_cities:
  "city_of (example_rated 1 ''paris'' 5) = ''paris''"
  "city_of (example_entry 2 ''tokyo'') = ''tokyo''"
  "city_of (example_entry 3 ''rome'') = ''rome''"
  by (simp_all add: city_of_def example_rated_def example_entry_def itinerary_entry_def)

text \<open>
  C10. Every auto-train pass on a flat-file store with at least three records counts each
  record with rating 4 or more again, whether or not it is already marked as used for
  training: with \<open>k\<close> such records of city \<open>c\<close>, \<open>n\<close> passes raise the count of \<open>c\<close> by
  \<open>n * k\<close>. The hypotheses say that each pass runs and persists: no relational backend,
  a healthy disk, three records.
\<close>

theorem high_rated_count_grows:
  assumes "\<not> use_database s" "\<forall>e\<in>set es. disk_ok e" "3 \<le> length (itineraries_file s)"
  shows "\<exists>s'. auto_train_passes es s = Inr s'
            \<and> high_rated_count s' c
                = high_rated_count s c
                  + int (length es) * int (high_rated_in c (itineraries_file s))"
  using assms
proof (induction es arbitrary: s)
  case Nil
  then show ?case by simp
next
  case (Cons e es)
  from Cons.prems have "disk_ok e" and rest: "\<forall>e\<in>set es. disk_ok e" by simp_all
  from auto_train_count [OF Cons.prems(1) this(1) Cons.prems(3), of c] obtain s1 where
    s1: "auto_train e s = Inr s1" and u: "\<not> use_database s1"
    and len: "length (itineraries_file s1) = length (itineraries_file s)"
    and k: "high_rated_in c (itineraries_file s1) = high_rated_in c (itineraries_file s)"
    and n: "high_rated_count s1 c
              = high_rated_count s c + int (high_rated_in c (itineraries_file s))"
    by blast
  from len Cons.prems(3) have "3 \<le> length (itineraries_file s1)" by simp
  from Cons.IH [OF u rest this] obtain s' where
    s': "auto_train_passes es s1 = Inr s'"
    and m: "high_rated_count s' c
              = high_rated_count s1 c
                + int (length es) * int (high_rated_in c (itineraries_file s1))"
    by blast
  from s1 s' m n k show ?case by (simp add: algebra_simps)
qed

theorem high_rated_count_grows_witness:
  "\<not> use_database example_store \<and> disk_ok example_env
   \<and> 3 \<le> length (itineraries_file example_store)
   \<and> high_rated_count example_store ''Paris'' = 0
   \<and> high_rated_in ''Paris'' (itineraries_file example_store) = 1
   \<and> (\<exists>s'. auto_train_passes [example_env, example_env] example_store = Inr s'
          \<and> high_rated_count s' ''Paris'' = 2)"
proof -
  have f: "itineraries_file example_store
      = [example_rated 1 ''paris'' 5, example_entry 2 ''tokyo'', example_entry 3 ''rome'']"
    by (simp add: example_store_def example_sys_def)
  have a: "\<not> use_database example_store"
    by (simp add: example_store_def example_sys_def)
  have d: "disk_ok example_env"
    by (simp add: disk_ok_def example_env_def)
  then have b: "\<forall>e\<in>set [example_env, example_env]. disk_ok e"
    by simp
  have c: "3 \<le> length (itineraries_file example_store)"
    unfolding f by simp
  have z: "high_rated_count example_store ''Paris'' = 0"
    by (simp add: high_rated_count_def example_store_def example_sys_def
        generate_initial_patterns_def count_in_def)
  have k: "high_rated_in ''Paris'' (itineraries_file example_store) = 1"
    unfolding f high_rated_in_def by (simp add: example_ratings example_cities title_examples)
  from high_rated_count_grows [OF a b c, of "''Paris''"]
  have "\<exists>s'. auto_train_passes [example_env, example_env] example_store = Inr s'
          \<and> high_rated_count s' ''Paris'' = 2"
    unfolding z k by simp
  with a d c z k show ?thesis by (intro conjI)
qed

subsection \<open>The statistics\<close>































subsection \<open>The most frequent cities\<close>








end
